theory Spec2Isabelle
  imports Main
begin

section \<open>Data model\<close>

text \<open>
  The chat view (\<^verbatim>\<open>src/components/ChatWindow.tsx\<close>) and the API service
  (\<^verbatim>\<open>src/unnamed/part_000\<close>) are embedded as pure functions. A JavaScript string is an
  Isabelle \<open>string\<close>: one \<open>char\<close> per UTF-16 code unit, so \<open>length\<close> and \<open>take\<close> count
  what \<^verbatim>\<open>.length\<close> and \<^verbatim>\<open>.substring\<close> count. The declarations of \<^verbatim>\<open>../types\<close> are read off
  the way the two files use them.
\<close>

datatype Author = USER | MODEL

text \<open>A JavaScript number as far as the view needs it: an integer or \<^verbatim>\<open>NaN\<close>.\<close>

datatype js_number = NaN | Num int

text \<open>\<^verbatim>\<open>GenerationEvent['parameters']\<close>: \<^verbatim>\<open>{ model, aspectRatio, numberOfImages, outputMimeType? }\<close>.\<close>

record generation_parameters =
  param_model :: string
  aspectRatio :: string
  numberOfImages :: js_number
  outputMimeType :: "string option"

text \<open>\<^verbatim>\<open>MessagePart\<close>, a union tagged by \<^verbatim>\<open>type\<close>: \<^verbatim>\<open>'text'\<close>, \<^verbatim>\<open>'image'\<close>, \<^verbatim>\<open>'imageGenerationResult'\<close>.\<close>

datatype MessagePart =
    TextPart string
  | ImagePart (url: string) (base64: string) (mimeType: string)
  | ImageGenerationResult (images: "string list") (prompt: string)
      (parameters: generation_parameters)

text \<open>
  A value found in the legacy \<^verbatim>\<open>content\<close> field of a stored message; the code only asks
  whether \<^verbatim>\<open>typeof msg.content === 'string'\<close>.
\<close>

datatype js_value = JsString string | JsNumber int | JsBoolean bool | JsNull

text \<open>
  A message as the store can hold it. \<^verbatim>\<open>parts\<close> is \<open>None\<close> on a legacy message (the field
  is missing); \<^verbatim>\<open>content\<close> is the legacy field, \<open>None\<close> when missing.
\<close>

record ChatMessage =
  msg_id :: string
  author :: Author
  parts :: "MessagePart list option"
  content :: "js_value option"

record ChatConversation =
  conv_id :: string
  title :: string
  conv_messages :: "ChatMessage list"
  createdAt :: int
  modelUsed :: string
  isFavorite :: bool
  conv_type :: string

text \<open>The \<^verbatim>\<open>uploadedImage\<close> state: \<^verbatim>\<open>{ url, base64, mimeType }\<close>.\<close>

record uploaded_image =
  up_url :: string
  up_base64 :: string
  up_mimeType :: string

text \<open>
  The component's \<^verbatim>\<open>useState\<close> cells and the \<^verbatim>\<open>currentConversationIdRef\<close> ref
  (ChatWindow.tsx lines 45-60).
\<close>

record view_state =
  messages :: "ChatMessage list"
  input :: string
  isLoading :: bool
  model :: string
  uploadedImage :: "uploaded_image option"
  showGenerationPanel :: bool
  genPrompt :: string
  genAspectRatio :: string
  genModel :: string
  genNumImages :: js_number
  currentConversationIdRef :: "string option"

section \<open>The conversation store\<close>

text \<open>
  Modelled from the spec: \<^verbatim>\<open>dbService\<close> (\<^verbatim>\<open>../services/dbService\<close>) is not among the
  sources. The spec gives \<^verbatim>\<open>getConversation(id) -> Conversation | absent\<close> and
  \<^verbatim>\<open>addOrUpdateConversation(Conversation) -> acknowledgement\<close>, conversations keyed by
  their identifier. The store is the list of the conversations it holds, at most one
  looked up per identifier.
\<close>

type_synonym db = "ChatConversation list"

definition getConversation :: "string \<Rightarrow> db \<Rightarrow> ChatConversation option" where
  "getConversation k d = find (\<lambda>c. conv_id c = k) d"

definition addOrUpdateConversation :: "ChatConversation \<Rightarrow> db \<Rightarrow> db" where
  "addOrUpdateConversation c d = c # filter (\<lambda>x. conv_id x \<noteq> conv_id c) d"

section \<open>Loading a conversation\<close>

text \<open>The legacy migration, the callback of \<^verbatim>\<open>convo.messages.map\<close> (lines 70-78).\<close>

definition migrate :: "ChatMessage \<Rightarrow> ChatMessage" where
  "migrate msg =
     (case parts msg of
        Some ps \<Rightarrow> msg
      | None \<Rightarrow>
          (case content msg of
             Some (JsString c) \<Rightarrow> msg\<lparr>parts := Some [TextPart c]\<rparr>
           | _ \<Rightarrow> msg\<lparr>parts := Some [TextPart '''']\<rparr>))"

definition default_model :: string where
  "default_model = ''gemini-2.5-flash''"

definition greeting :: ChatMessage where
  "greeting =
     \<lparr>msg_id = ''initial'', author = MODEL,
      parts = Some [TextPart
        ''Hello! I'm Gemini. How can I assist you today? You can ask me anything or generate an image!''],
      content = None\<rparr>"

text \<open>
  The effect run when \<^verbatim>\<open>conversationId\<close> changes (lines 64-99). \<^verbatim>\<open>if (conversationId)\<close>
  is false for \<^verbatim>\<open>null\<close> and for the empty string.
\<close>

definition loadConversation :: "string option \<Rightarrow> db \<Rightarrow> view_state \<Rightarrow> view_state" where
  "loadConversation conversationId d st =
     (let st0 = st\<lparr>currentConversationIdRef := conversationId\<rparr>;
          st1 =
            (case conversationId of
               None \<Rightarrow> st0\<lparr>messages := [greeting], model := default_model\<rparr>
             | Some cid \<Rightarrow>
                 if cid = [] then st0\<lparr>messages := [greeting], model := default_model\<rparr>
                 else
                   (case getConversation cid d of
                      None \<Rightarrow> st0\<lparr>messages := [], model := default_model\<rparr>
                    | Some convo \<Rightarrow>
                        if conv_type convo = ''chat''
                        then st0\<lparr>messages := map migrate (conv_messages convo),
                                 model := modelUsed convo\<rparr>
                        else st0\<lparr>messages := [], model := default_model\<rparr>))
      in st1\<lparr>input := [], uploadedImage := None, showGenerationPanel := False\<rparr>)"

section \<open>JavaScript helpers\<close>

text \<open>
  \<^verbatim>\<open>String.prototype.trim\<close> strips white space and line terminators from both ends; of the
  code units below 256 these are TAB, LF, VT, FF, CR, SPACE and NBSP.
\<close>

definition is_whitespace :: "char \<Rightarrow> bool" where
  "is_whitespace c =
     (c = CHR 0x09 \<or> c = CHR 0x0A \<or> c = CHR 0x0B \<or> c = CHR 0x0C \<or> c = CHR 0x0D \<or>
      c = CHR 0x20 \<or> c = CHR 0xA0)"

definition trim :: "string \<Rightarrow> string" where
  "trim s = rev (dropWhile is_whitespace (rev (dropWhile is_whitespace s)))"

text \<open>
  \<^verbatim>\<open>Number.prototype.toString\<close> on an integer such as \<^verbatim>\<open>Date.now()\<close>: the decimal digits,
  after a minus sign when negative.
\<close>

definition digit_char :: "nat \<Rightarrow> char" where
  "digit_char d = ''0123456789'' ! (d mod 10)"

fun digits_of :: "nat \<Rightarrow> string" where
  "digits_of n =
     (if n < 10 then [digit_char n] else digits_of (n div 10) @ [digit_char (n mod 10)])"

declare digits_of.simps [simp del]

definition toString :: "int \<Rightarrow> string" where
  "toString i = (if i < 0 then CHR ''-'' # digits_of (nat (- i)) else digits_of (nat i))"

text \<open>
  \<^verbatim>\<open>parseInt(s, 10)\<close>: skip leading white space, read an optional sign, then the longest
  run of decimal digits; \<^verbatim>\<open>NaN\<close> when there is no digit.
\<close>

definition is_digit :: "char \<Rightarrow> bool" where
  "is_digit c = (48 \<le> (of_char c :: nat) \<and> (of_char c :: nat) \<le> 57)"

definition digit_value :: "char \<Rightarrow> int" where
  "digit_value c = int (of_char c) - 48"

definition parseInt :: "string \<Rightarrow> js_number" where
  "parseInt s =
     (let s1 = dropWhile is_whitespace s;
          negative = (case s1 of [] \<Rightarrow> False | c # _ \<Rightarrow> c = CHR ''-'');
          s2 = (case s1 of [] \<Rightarrow> [] | c # r \<Rightarrow> if c = CHR ''+'' \<or> c = CHR ''-'' then r else s1);
          z = takeWhile is_digit s2;
          mathInt = foldl (\<lambda>a c. 10 * a + digit_value c) 0 z
      in if z = [] then NaN else Num (if negative then - mathInt else mathInt))"

section \<open>The environment of the view\<close>

text \<open>
  What the handlers reach outside the component: the store, the record of the calls to
  \<^verbatim>\<open>dbService.addOrUpdateConversation\<close> (oldest first), the record of the
  \<^verbatim>\<open>onConversationCreated\<close> notifications, and the clock. The \<open>k\<close>-th reading of
  \<^verbatim>\<open>Date.now()\<close> is \<open>clock k\<close>, for any clock.
\<close>

record env =
  store :: db
  writes :: "ChatConversation list"
  created :: "string list"
  clock :: "nat \<Rightarrow> int"
  ticks :: nat

definition Date_now :: "env \<Rightarrow> int \<times> env" where
  "Date_now e = (clock e (ticks e), e\<lparr>ticks := Suc (ticks e)\<rparr>)"

definition db_put :: "ChatConversation \<Rightarrow> env \<Rightarrow> env" where
  "db_put c e = e\<lparr>store := addOrUpdateConversation c (store e), writes := writes e @ [c]\<rparr>"

definition onConversationCreated :: "string \<Rightarrow> env \<Rightarrow> env" where
  "onConversationCreated cid e = e\<lparr>created := created e @ [cid]\<rparr>"

text \<open>What a handler or a service call can throw.\<close>

datatype js_error = TypeError | RemoteError string

section \<open>Saving a message\<close>

fun is_text :: "MessagePart \<Rightarrow> bool" where
  "is_text (TextPart t) = True"
| "is_text (ImagePart u b m) = False"
| "is_text (ImageGenerationResult is p ps) = False"

text \<open>\<^verbatim>\<open>(message.parts.find(p => p.type === 'text'))?.text\<close> (line 124).\<close>

definition first_text :: "MessagePart list \<Rightarrow> string option" where
  "first_text ps = (case find is_text ps of Some (TextPart t) \<Rightarrow> Some t | _ \<Rightarrow> None)"

text \<open>\<^verbatim>\<open>... || 'New Chat'\<close>: the fallback is taken for \<^verbatim>\<open>undefined\<close> and for the empty string.\<close>

definition titleText :: "MessagePart list \<Rightarrow> string" where
  "titleText ps =
     (case first_text ps of
        None \<Rightarrow> ''New Chat''
      | Some t \<Rightarrow> if t = [] then ''New Chat'' else t)"

text \<open>\<^verbatim>\<open>titleText.substring(0, 40) + (titleText.length > 40 ? '...' : '')\<close> (line 129).\<close>

definition conversation_title :: "string \<Rightarrow> string" where
  "conversation_title t = take 40 t @ (if length t > 40 then ''...'' else [])"

text \<open>
  The branch \<^verbatim>\<open>if (!convoId)\<close> of \<^verbatim>\<open>saveMessage\<close> (lines 122-137). Reading \<^verbatim>\<open>.find\<close> of a
  missing \<^verbatim>\<open>parts\<close> throws before anything is written.
\<close>

definition createConversation ::
  "ChatMessage \<Rightarrow> view_state \<Rightarrow> env \<Rightarrow> js_error + (string \<times> view_state \<times> env)" where
  "createConversation message st e =
     (case parts message of
        None \<Rightarrow> Inl TypeError
      | Some ps \<Rightarrow>
          (case Date_now e of (now1, e1) \<Rightarrow>
            (let convoId = toString now1;
                 st1 = st\<lparr>currentConversationIdRef := Some convoId\<rparr>
             in case Date_now e1 of (now2, e2) \<Rightarrow>
               (let newConversation =
                      \<lparr>conv_id = convoId, title = conversation_title (titleText ps),
                       conv_messages = [message], createdAt = now2, modelUsed = model st,
                       isFavorite = False, conv_type = ''chat''\<rparr>
                in Inr (convoId, st1, onConversationCreated convoId (db_put newConversation e2))))))"

text \<open>\<^verbatim>\<open>saveMessage\<close> (lines 120-146); it returns \<^verbatim>\<open>convoId\<close>.\<close>

definition saveMessage ::
  "ChatMessage \<Rightarrow> view_state \<Rightarrow> env \<Rightarrow> js_error + (string \<times> view_state \<times> env)" where
  "saveMessage message st e =
     (case currentConversationIdRef st of
        None \<Rightarrow> createConversation message st e
      | Some convoId \<Rightarrow>
          if convoId = [] then createConversation message st e
          else
            (case getConversation convoId (store e) of
               None \<Rightarrow> Inr (convoId, st, e)
             | Some existingConvo \<Rightarrow>
                 if conv_type existingConvo = ''chat''
                 then Inr (convoId, st,
                        db_put (existingConvo\<lparr>conv_messages :=
                                  conv_messages existingConvo @ [message]\<rparr>) e)
                 else Inr (convoId, st, e)))"

section \<open>The API service\<close>

text \<open>The provider's wire shape: a \<^verbatim>\<open>Content\<close> has a role and \<^verbatim>\<open>Part\<close>s.\<close>

datatype Part = TextData string | InlineData (inline_mimeType: string) (inline_data: string)

record Content =
  role :: string
  content_parts :: "Part list"

fun is_text_or_image :: "MessagePart \<Rightarrow> bool" where
  "is_text_or_image (TextPart t) = True"
| "is_text_or_image (ImagePart u b m) = True"
| "is_text_or_image (ImageGenerationResult is p ps) = False"

text \<open>The callback of \<^verbatim>\<open>msg.parts.reduce\<close> (part_000 lines 16-28).\<close>

fun push_part :: "Part list \<Rightarrow> MessagePart \<Rightarrow> Part list" where
  "push_part acc (TextPart t) = acc @ [TextData t]"
| "push_part acc (ImagePart u b m) = acc @ [InlineData m b]"
| "push_part acc (ImageGenerationResult is p ps) = acc"

text \<open>
  \<^verbatim>\<open>messages.filter(msg => msg.parts.some(...))\<close> (line 13); \<^verbatim>\<open>.some\<close> of a missing
  \<^verbatim>\<open>parts\<close> throws.
\<close>

fun filter_sendable :: "ChatMessage list \<Rightarrow> js_error + ChatMessage list" where
  "filter_sendable [] = Inr []"
| "filter_sendable (msg # rest) =
     (case parts msg of
        None \<Rightarrow> Inl TypeError
      | Some ps \<Rightarrow>
          (case filter_sendable rest of
             Inl err \<Rightarrow> Inl err
           | Inr kept \<Rightarrow> Inr (if list_ex is_text_or_image ps then msg # kept else kept)))"

definition to_content :: "ChatMessage \<Rightarrow> js_error + Content" where
  "to_content msg =
     (case parts msg of
        None \<Rightarrow> Inl TypeError
      | Some ps \<Rightarrow>
          Inr \<lparr>role = (if author msg = USER then ''user'' else ''model''),
               content_parts = foldl push_part [] ps\<rparr>)"

fun map_contents :: "ChatMessage list \<Rightarrow> js_error + Content list" where
  "map_contents [] = Inr []"
| "map_contents (msg # rest) =
     (case to_content msg of
        Inl err \<Rightarrow> Inl err
      | Inr c \<Rightarrow> (case map_contents rest of Inl err \<Rightarrow> Inl err | Inr cs \<Rightarrow> Inr (c # cs)))"

definition buildContents :: "ChatMessage list \<Rightarrow> js_error + Content list" where
  "buildContents msgs =
     (case filter_sendable msgs of Inl err \<Rightarrow> Inl err | Inr kept \<Rightarrow> map_contents kept)"

text \<open>
  The remote endpoint behind \<^verbatim>\<open>ai.models.generateContentStream\<close>: the call is rejected, or
  it gives a stream that yields chunks and then ends or throws.
\<close>

datatype response_stream =
  StreamEnd | StreamChunk string response_stream | StreamThrow js_error

type_synonym chat_remote = "string \<Rightarrow> Content list \<Rightarrow> js_error + response_stream"

text \<open>
  \<^verbatim>\<open>for await (const chunk of responseStream) yield chunk.text\<close>: the fragments yielded,
  and the exception that ended the loop, if one did.
\<close>

fun for_await :: "response_stream \<Rightarrow> string list \<times> js_error option" where
  "for_await StreamEnd = ([], None)"
| "for_await (StreamChunk t rest) = (case for_await rest of (ys, thrown) \<Rightarrow> (t # ys, thrown))"
| "for_await (StreamThrow err) = ([], Some err)"

text \<open>The \<^verbatim>\<open>try\<close> block of \<^verbatim>\<open>getChatResponseStream\<close> (lines 39-51).\<close>

definition stream_try_block ::
  "chat_remote \<Rightarrow> ChatMessage list \<Rightarrow> string \<Rightarrow> string list \<times> js_error option" where
  "stream_try_block remote msgs mdl =
     (case buildContents msgs of
        Inl err \<Rightarrow> ([], Some err)
      | Inr contents \<Rightarrow>
          (case remote mdl contents of
             Inl err \<Rightarrow> ([], Some err)
           | Inr responseStream \<Rightarrow> for_await responseStream))"

definition chat_apology :: string where
  "chat_apology = ''Sorry, I encountered an error. Please try again.''"

text \<open>
  \<^verbatim>\<open>getChatResponseStream\<close> (lines 38-56): the fragments the generator yields, and the
  exception that reaches the caller, if one does. The \<^verbatim>\<open>catch\<close> block yields the apology.
\<close>

definition getChatResponseStream ::
  "chat_remote \<Rightarrow> ChatMessage list \<Rightarrow> string \<Rightarrow> string list \<times> js_error option" where
  "getChatResponseStream remote msgs mdl =
     (case stream_try_block remote msgs mdl of
        (ys, None) \<Rightarrow> (ys, None)
      | (ys, Some err) \<Rightarrow> (ys @ [chat_apology], None))"

text \<open>
  The remote endpoint behind \<^verbatim>\<open>ai.models.generateImages\<close>, called with the model, the
  prompt and the config; a response carries the image bytes of each generated image, or
  no \<^verbatim>\<open>generatedImages\<close> at all.
\<close>

record image_config =
  cfg_numberOfImages :: js_number
  cfg_aspectRatio :: string
  cfg_outputMimeType :: string

record images_response =
  generatedImages :: "string list option"

type_synonym image_remote = "string \<Rightarrow> string \<Rightarrow> image_config \<Rightarrow> js_error + images_response"

text \<open>\<^verbatim>\<open>outputMimeType || 'image/png'\<close>.\<close>

definition mime_or_png :: "string option \<Rightarrow> string" where
  "mime_or_png m = (case m of None \<Rightarrow> ''image/png'' | Some t \<Rightarrow> if t = [] then ''image/png'' else t)"

definition image_config_of :: "generation_parameters \<Rightarrow> image_config" where
  "image_config_of params =
     \<lparr>cfg_numberOfImages = numberOfImages params, cfg_aspectRatio = aspectRatio params,
      cfg_outputMimeType = mime_or_png (outputMimeType params)\<rparr>"

text \<open>The \<^verbatim>\<open>try\<close> block of \<^verbatim>\<open>generateImage\<close> (lines 60-78).\<close>

definition generate_try_block ::
  "image_remote \<Rightarrow> string \<Rightarrow> generation_parameters \<Rightarrow> js_error + string list option" where
  "generate_try_block remote prompt_text params =
     (case remote (param_model params) prompt_text (image_config_of params) of
        Inl err \<Rightarrow> Inl err
      | Inr response \<Rightarrow>
          (let mime = mime_or_png (outputMimeType params)
           in case generatedImages response of
                None \<Rightarrow> Inr None
              | Some imgs \<Rightarrow>
                  if length imgs > 0
                  then Inr (Some (map (\<lambda>bytes. ''data:'' @ mime @ '';base64,'' @ bytes) imgs))
                  else Inr None))"

text \<open>\<^verbatim>\<open>generateImage\<close> (lines 58-83): the \<^verbatim>\<open>catch\<close> block returns \<^verbatim>\<open>null\<close>.\<close>

definition generateImage ::
  "image_remote \<Rightarrow> string \<Rightarrow> generation_parameters \<Rightarrow> js_error + string list option" where
  "generateImage remote prompt_text params =
     (case generate_try_block remote prompt_text params of
        Inl err \<Rightarrow> Inr None
      | Inr result \<Rightarrow> Inr result)"

section \<open>Submitting a message\<close>

text \<open>The guard of \<^verbatim>\<open>handleSubmit\<close> (line 150): \<^verbatim>\<open>!input.trim() && !uploadedImage || isLoading\<close>.\<close>

definition submit_rejected :: "view_state \<Rightarrow> bool" where
  "submit_rejected st = ((trim (input st) = [] \<and> uploadedImage st = None) \<or> isLoading st)"

text \<open>\<^verbatim>\<open>userParts\<close> (lines 152-158): the image first, then the text as typed.\<close>

definition userParts :: "view_state \<Rightarrow> MessagePart list" where
  "userParts st =
     (case uploadedImage st of
        None \<Rightarrow> []
      | Some u \<Rightarrow> [ImagePart (up_url u) (up_base64 u) (up_mimeType u)])
     @ (if trim (input st) \<noteq> [] then [TextPart (input st)] else [])"

text \<open>\<^verbatim>\<open>updatedMessages\<close> (lines 166-167), the history handed to the service.\<close>

definition updatedMessages :: "view_state \<Rightarrow> ChatMessage \<Rightarrow> ChatMessage list" where
  "updatedMessages st userMessage =
     filter (\<lambda>m. msg_id m \<noteq> ''initial'') (messages st) @ [userMessage]"

text \<open>
  Lines 152-181, up to the placeholder: the history, the placeholder \<^verbatim>\<open>modelMessage\<close>, and
  the state and environment when the stream is opened.
\<close>

definition submit_start ::
  "view_state \<Rightarrow> env \<Rightarrow> js_error + (ChatMessage list \<times> ChatMessage \<times> view_state \<times> env)" where
  "submit_start st e =
     (case Date_now e of (now0, e0) \<Rightarrow>
       (let userMessage =
              \<lparr>msg_id = toString now0, author = USER, parts = Some (userParts st),
               content = None\<rparr>;
            history = updatedMessages st userMessage;
            st1 = st\<lparr>messages := history, input := [], uploadedImage := None,
                     isLoading := True\<rparr>
        in case saveMessage userMessage st1 e0 of
             Inl err \<Rightarrow> Inl err
           | Inr (convoId, st2, e1) \<Rightarrow>
               (case Date_now e1 of (now1, e2) \<Rightarrow>
                 (let modelMessage =
                        \<lparr>msg_id = toString (now1 + 1), author = MODEL,
                         parts = Some [TextPart []], content = None\<rparr>
                  in Inr (history, modelMessage,
                          st2\<lparr>messages := messages st2 @ [modelMessage]\<rparr>, e2)))))"

text \<open>
  The body of the streaming loop (lines 185-187): the accumulator grows by the chunk and
  every message carrying the placeholder's identifier gets the accumulator as its text.
\<close>

definition receive_chunk :: "string \<Rightarrow> string \<times> view_state \<Rightarrow> string \<Rightarrow> string \<times> view_state" where
  "receive_chunk modelMessageId acc chunk =
     (case acc of (fullResponse, st) \<Rightarrow>
       (let full = fullResponse @ chunk
        in (full,
            st\<lparr>messages :=
                 map (\<lambda>msg. if msg_id msg = modelMessageId
                            then msg\<lparr>parts := Some [TextPart full]\<rparr> else msg)
                     (messages st)\<rparr>)))"

text \<open>The loop over the fragments received so far, from \<^verbatim>\<open>fullResponse = ''\<close>.\<close>

definition stream_loop :: "string \<Rightarrow> string list \<Rightarrow> view_state \<Rightarrow> string \<times> view_state" where
  "stream_loop modelMessageId frags st = foldl (receive_chunk modelMessageId) ([], st) frags"

text \<open>Lines 190-194: the loading flag is cleared and the final message is saved.\<close>

definition submit_finish ::
  "ChatMessage \<Rightarrow> string \<Rightarrow> view_state \<Rightarrow> env \<Rightarrow> js_error + (view_state \<times> env)" where
  "submit_finish modelMessage fullResponse st e =
     (let st1 = st\<lparr>isLoading := False\<rparr>;
          finalModelMessage = modelMessage\<lparr>parts := Some [TextPart fullResponse]\<rparr>
      in case saveMessage finalModelMessage st1 e of
           Inl err \<Rightarrow> Inl err
         | Inr (convoId, st2, e1) \<Rightarrow> Inr (st2, e1))"

text \<open>
  \<^verbatim>\<open>handleSubmit\<close> (lines 148-196). \<open>Inl\<close> is a rejected promise: an exception that left the
  handler.
\<close>

definition handleSubmit ::
  "chat_remote \<Rightarrow> view_state \<Rightarrow> env \<Rightarrow> js_error + (view_state \<times> env)" where
  "handleSubmit remote st e =
     (if submit_rejected st then Inr (st, e)
      else
        (case submit_start st e of
           Inl err \<Rightarrow> Inl err
         | Inr (history, modelMessage, st1, e1) \<Rightarrow>
             (case getChatResponseStream remote history (model st) of
                (frags, Some err) \<Rightarrow> Inl err
              | (frags, None) \<Rightarrow>
                  (case stream_loop (msg_id modelMessage) frags st1 of
                     (fullResponse, st2) \<Rightarrow> submit_finish modelMessage fullResponse st2 e1))))"

section \<open>Generating an image\<close>

text \<open>The guard of \<^verbatim>\<open>handleGenerateImage\<close> (line 199).\<close>

definition generate_rejected :: "view_state \<Rightarrow> bool" where
  "generate_rejected st = (trim (genPrompt st) = [] \<or> isLoading st)"

text \<open>\<^verbatim>\<open>params\<close> (line 213).\<close>

definition generation_params :: "view_state \<Rightarrow> generation_parameters" where
  "generation_params st =
     \<lparr>param_model = genModel st, aspectRatio = genAspectRatio st,
      numberOfImages = genNumImages st, outputMimeType = None\<rparr>"

definition image_apology :: string where
  "image_apology = ''Sorry, I failed to generate the image. Please try again.''"

text \<open>The reply message of lines 216-237, from the service's result and \<^verbatim>\<open>Date.now()\<close>.\<close>

definition generation_reply :: "view_state \<Rightarrow> string list option \<Rightarrow> int \<Rightarrow> ChatMessage" where
  "generation_reply st result now1 =
     (case result of
        Some urls \<Rightarrow>
          \<lparr>msg_id = toString (now1 + 1), author = MODEL,
           parts = Some [ImageGenerationResult urls (genPrompt st) (generation_params st)],
           content = None\<rparr>
      | None \<Rightarrow>
          \<lparr>msg_id = toString (now1 + 1), author = MODEL,
           parts = Some [TextPart image_apology], content = None\<rparr>)"

text \<open>\<^verbatim>\<open>handleGenerateImage\<close> (lines 198-242).\<close>

definition handleGenerateImage ::
  "image_remote \<Rightarrow> view_state \<Rightarrow> env \<Rightarrow> js_error + (view_state \<times> env)" where
  "handleGenerateImage remote st e =
     (if generate_rejected st then Inr (st, e)
      else
        (case Date_now e of (now0, e0) \<Rightarrow>
          (let userMessage =
                 \<lparr>msg_id = toString now0, author = USER,
                  parts = Some [TextPart (''Generate image: '' @ [CHR 0x22] @ genPrompt st
                                          @ [CHR 0x22])],
                  content = None\<rparr>;
               st1 = st\<lparr>isLoading := True, showGenerationPanel := False,
                        messages := filter (\<lambda>m. msg_id m \<noteq> ''initial'') (messages st)
                                    @ [userMessage]\<rparr>
           in case saveMessage userMessage st1 e0 of
                Inl err \<Rightarrow> Inl err
              | Inr (convoId, st2, e1) \<Rightarrow>
                  (case generateImage remote (genPrompt st) (generation_params st) of
                     Inl err \<Rightarrow> Inl err
                   | Inr result \<Rightarrow>
                       (case Date_now e1 of (now1, e2) \<Rightarrow>
                         (let reply = generation_reply st result now1;
                              st3 = st2\<lparr>messages := messages st2 @ [reply]\<rparr>
                          in case saveMessage reply st3 e2 of
                               Inl err \<Rightarrow> Inl err
                             | Inr (convoId', st4, e3) \<Rightarrow>
                                 Inr (st4\<lparr>genPrompt := [], isLoading := False\<rparr>, e3)))))))"

section \<open>The generation panel's inputs\<close>

text \<open>The initial values of the \<^verbatim>\<open>useState\<close> cells (lines 45-60).\<close>

definition initial_state :: "string option \<Rightarrow> view_state" where
  "initial_state conversationId =
     \<lparr>messages = [], input = [], isLoading = False, model = ''gemini-2.5-flash'',
      uploadedImage = None, showGenerationPanel = False, genPrompt = [],
      genAspectRatio = ''3:4'', genModel = ''imagen-3.0-generate-002'',
      genNumImages = Num 4, currentConversationIdRef = conversationId\<rparr>"

text \<open>The prompt's \<^verbatim>\<open>onChange\<close> (line 350): \<^verbatim>\<open>setGenPrompt(e.target.value)\<close>.\<close>

definition onGenPromptChange :: "string \<Rightarrow> view_state \<Rightarrow> view_state" where
  "onGenPromptChange v st = st\<lparr>genPrompt := v\<rparr>"

text \<open>
  The count's \<^verbatim>\<open>onChange\<close> (line 358): \<^verbatim>\<open>setGenNumImages(parseInt(e.target.value, 10))\<close>, on
  an \<^verbatim>\<open><input type="number" min="1" max="4">\<close>.
\<close>

definition onNumImagesChange :: "string \<Rightarrow> view_state \<Rightarrow> view_state" where
  "onNumImagesChange v st = st\<lparr>genNumImages := parseInt v\<rparr>"

section \<open>Vocabulary of the statements\<close>

text \<open>
  \<open>can_persist\<close>: \<^verbatim>\<open>saveMessage\<close> will write, because no identifier is set yet (a
  conversation is created) or the store holds a \<^verbatim>\<open>'chat'\<close> conversation under the
  identifier. \<open>persisted cid m\<close>: the store holds a \<^verbatim>\<open>'chat'\<close> conversation under \<open>cid\<close>
  whose last message is \<open>m\<close>.
\<close>

definition can_persist :: "view_state \<Rightarrow> env \<Rightarrow> bool" where
  "can_persist st e =
     (case currentConversationIdRef st of
        None \<Rightarrow> True
      | Some cid \<Rightarrow>
          cid = [] \<or>
          (case getConversation cid (store e) of
             None \<Rightarrow> False
           | Some c \<Rightarrow> conv_type c = ''chat''))"

definition persisted :: "string \<Rightarrow> ChatMessage \<Rightarrow> env \<Rightarrow> bool" where
  "persisted cid m e =
     (case getConversation cid (store e) of
        None \<Rightarrow> False
      | Some c \<Rightarrow> conv_type c = ''chat'' \<and> conv_messages c \<noteq> [] \<and> last (conv_messages c) = m)"

text \<open>
  Whether, after a handler has returned, the store holds message \<open>m\<close> last in the
  conversation the view is on.
\<close>

definition outcome_persisted :: "ChatMessage \<Rightarrow> js_error + (view_state \<times> env) \<Rightarrow> bool" where
  "outcome_persisted m r =
     (case r of
        Inl err \<Rightarrow> False
      | Inr (st, e) \<Rightarrow>
          (case currentConversationIdRef st of
             None \<Rightarrow> False
           | Some cid \<Rightarrow> persisted cid m e))"

definition outcome_messages :: "js_error + (view_state \<times> env) \<Rightarrow> ChatMessage list" where
  "outcome_messages r = (case r of Inl err \<Rightarrow> [] | Inr (st, e) \<Rightarrow> messages st)"

definition outcome_writes :: "js_error + (view_state \<times> env) \<Rightarrow> ChatConversation list" where
  "outcome_writes r = (case r of Inl err \<Rightarrow> [] | Inr (st, e) \<Rightarrow> writes e)"

definition outcome_store :: "js_error + (view_state \<times> env) \<Rightarrow> db" where
  "outcome_store r = (case r of Inl err \<Rightarrow> [] | Inr (st, e) \<Rightarrow> store e)"

text \<open>The texts of the text parts of a message, in order.\<close>

fun texts_of :: "MessagePart list \<Rightarrow> string list" where
  "texts_of [] = []"
| "texts_of (TextPart t # ps) = t # texts_of ps"
| "texts_of (ImagePart u b m # ps) = texts_of ps"
| "texts_of (ImageGenerationResult is p gp # ps) = texts_of ps"

text \<open>The stream that yields the chunks \<open>ys\<close> and then goes on as \<open>tail\<close>.\<close>

fun stream_of :: "string list \<Rightarrow> response_stream \<Rightarrow> response_stream" where
  "stream_of [] tail = tail"
| "stream_of (y # ys) tail = StreamChunk y (stream_of ys tail)"

text \<open>
  The wire translation in the words of the specification: a text part becomes a text,
  an image part becomes inline data with its MIME type and base64 payload, any other part
  is left out; a message with no text or image part is left out; the role is
  \<^verbatim>\<open>'user'\<close> for \<^verbatim>\<open>USER\<close> and \<^verbatim>\<open>'model'\<close> otherwise.
\<close>

fun spec_wire_part :: "MessagePart \<Rightarrow> Part option" where
  "spec_wire_part (TextPart t) = Some (TextData t)"
| "spec_wire_part (ImagePart u b m) = Some (InlineData m b)"
| "spec_wire_part (ImageGenerationResult is p gp) = None"

definition message_parts :: "ChatMessage \<Rightarrow> MessagePart list" where
  "message_parts m = (case parts m of None \<Rightarrow> [] | Some ps \<Rightarrow> ps)"

definition spec_wire_message :: "ChatMessage \<Rightarrow> Content" where
  "spec_wire_message m =
     \<lparr>role = (case author m of USER \<Rightarrow> ''user'' | MODEL \<Rightarrow> ''model''),
      content_parts = List.map_filter spec_wire_part (message_parts m)\<rparr>"

definition spec_wire_history :: "ChatMessage list \<Rightarrow> Content list" where
  "spec_wire_history ms =
     map spec_wire_message
       (filter (\<lambda>m. List.map_filter spec_wire_part (message_parts m) \<noteq> []) ms)"

text \<open>
  The title in the words of the specification: the content of the first text part, cut to
  40 characters with \<^verbatim>\<open>'...'\<close> appended when it is longer, else the whole content;
  \<^verbatim>\<open>'New Chat'\<close> when there is no text part.
\<close>

definition spec_title :: "MessagePart list \<Rightarrow> string" where
  "spec_title ps =
     (case texts_of ps of
        [] \<Rightarrow> ''New Chat''
      | t # ts \<Rightarrow> if length t > 40 then take 40 t @ ''...'' else t)"

text \<open>
  What the caller of the chat streaming operation sees when the remote call answers \<open>r\<close>:
  the apology alone when the call is rejected, else the chunks of the stream, followed by
  the apology when the stream throws.
\<close>

definition reply_fragments :: "js_error + response_stream \<Rightarrow> string list" where
  "reply_fragments r =
     (case r of
        Inl err \<Rightarrow> [chat_apology]
      | Inr s \<Rightarrow>
          (case for_await s of
             (ys, None) \<Rightarrow> ys
           | (ys, Some err) \<Rightarrow> ys @ [chat_apology]))"

section \<open>Example inputs\<close>

definition example_env :: env where
  "example_env =
     \<lparr>store = [], writes = [], created = [], clock = (\<lambda>k. 1000 + int k), ticks = 0\<rparr>"

definition image_conversation :: ChatConversation where
  "image_conversation =
     \<lparr>conv_id = ''img1'', title = ''A cat'', conv_messages = [], createdAt = 5,
      modelUsed = ''imagen-3.0-generate-002'', isFavorite = False, conv_type = ''image''\<rparr>"

definition legacy_with_content :: ChatMessage where
  "legacy_with_content =
     \<lparr>msg_id = ''1'', author = USER, parts = None, content = Some (JsString ''old text'')\<rparr>"

definition legacy_bare :: ChatMessage where
  "legacy_bare = \<lparr>msg_id = ''2'', author = MODEL, parts = None, content = None\<rparr>"

definition user_hi :: ChatMessage where
  "user_hi = \<lparr>msg_id = ''3'', author = USER, parts = Some [TextPart ''hi''], content = None\<rparr>"

definition legacy_conversation :: ChatConversation where
  "legacy_conversation =
     \<lparr>conv_id = ''c1'', title = ''old'',
      conv_messages = [legacy_with_content, legacy_bare, user_hi],
      createdAt = 1, modelUsed = ''gemini-2.5-pro'', isFavorite = False, conv_type = ''chat''\<rparr>"

definition remote_hello :: chat_remote where
  "remote_hello mdl contents = Inr (StreamChunk ''Hel'' (StreamChunk ''lo'' StreamEnd))"

definition remote_rejects :: chat_remote where
  "remote_rejects mdl contents = Inl (RemoteError ''503'')"

definition remote_breaks :: chat_remote where
  "remote_breaks mdl contents = Inr (StreamChunk ''Hel'' (StreamThrow (RemoteError ''reset'')))"

definition long_text_message :: ChatMessage where
  "long_text_message =
     \<lparr>msg_id = ''5'', author = USER,
      parts = Some [ImagePart ''blob:1'' ''QUJD'' ''image/png'',
                    TextPart ''Please describe this picture of my cat in great detail''],
      content = None\<rparr>"

definition hi_state :: view_state where
  "hi_state = (loadConversation None [] (initial_state None))\<lparr>input := ''hi''\<rparr>"

definition reply_1004 :: "string \<Rightarrow> ChatMessage" where
  "reply_1004 t = \<lparr>msg_id = ''1004'', author = MODEL, parts = Some [TextPart t], content = None\<rparr>"

definition generated_message :: ChatMessage where
  "generated_message =
     \<lparr>msg_id = ''7'', author = MODEL,
      parts = Some [ImageGenerationResult [''data:image/png;base64,AAAA''] ''a cat''
                      \<lparr>param_model = ''imagen-3.0-generate-002'', aspectRatio = ''1:1'',
                       numberOfImages = Num 1, outputMimeType = None\<rparr>],
      content = None\<rparr>"

definition busy_state :: view_state where
  "busy_state =
     (initial_state (Some ''c1''))
       \<lparr>messages := [greeting, long_text_message, generated_message, reply_1004 ''A cat.''],
        input := ''and now?''\<rparr>"

definition busy_history :: "ChatMessage list" where
  "busy_history =
     [long_text_message, generated_message, reply_1004 ''A cat.'',
      \<lparr>msg_id = ''1000'', author = USER, parts = Some [TextPart ''and now?''], content = None\<rparr>]"

definition images_fail :: image_remote where
  "images_fail mdl prompt_text cfg = Inl (RemoteError ''quota'')"

definition images_empty :: image_remote where
  "images_empty mdl prompt_text cfg = Inr \<lparr>generatedImages = Some []\<rparr>"

text \<open>A remote that answers with one image whose bytes spell the count it was asked for.\<close>

definition images_probe :: image_remote where
  "images_probe mdl prompt_text cfg =
     Inr \<lparr>generatedImages =
            Some [case cfg_numberOfImages cfg of NaN \<Rightarrow> ''NaN'' | Num n \<Rightarrow> toString n]\<rparr>"

definition cat_state :: "string option \<Rightarrow> view_state" where
  "cat_state conversationId =
     (loadConversation conversationId [] (initial_state conversationId))
       \<lparr>genPrompt := ''a cat'', showGenerationPanel := True\<rparr>"

definition cat_request :: "string \<Rightarrow> ChatMessage" where
  "cat_request i =
     \<lparr>msg_id = i, author = USER,
      parts = Some [TextPart (''Generate image: '' @ [CHR 0x22] @ ''a cat'' @ [CHR 0x22])],
      content = None\<rparr>"

definition apology_message :: "string \<Rightarrow> ChatMessage" where
  "apology_message i =
     \<lparr>msg_id = i, author = MODEL,
      parts = Some [TextPart ''Sorry, I failed to generate the image. Please try again.''],
      content = None\<rparr>"

text \<open>
  The panel after the user has typed the prompt \<^verbatim>\<open>a cat\<close> and the text \<open>v\<close> into the count
  field.
\<close>

definition typed_count_state :: "string \<Rightarrow> view_state" where
  "typed_count_state v =
     onNumImagesChange v (onGenPromptChange ''a cat'' (initial_state None))"

definition long_input_state :: view_state where
  "long_input_state =
     (loadConversation None [] (initial_state None))
       \<lparr>input := ''Please describe this picture of my cat in great detail'',
        uploadedImage := Some \<lparr>up_url = ''blob:1'', up_base64 = ''QUJD'',
                                up_mimeType = ''image/png''\<rparr>\<rparr>"

definition image_only_state :: view_state where
  "image_only_state =
     (loadConversation None [] (initial_state None))
       \<lparr>uploadedImage := Some \<lparr>up_url = ''blob:1'', up_base64 = ''QUJD'',
                                up_mimeType = ''image/png''\<rparr>\<rparr>"

text \<open>A remote that answers with one chunk spelling the roles of the contents it was sent.\<close>

definition remote_roles :: chat_remote where
  "remote_roles mdl contents = Inr (StreamChunk (concat (map role contents)) StreamEnd)"

definition model_reply :: "string \<Rightarrow> string \<Rightarrow> ChatMessage" where
  "model_reply i t = \<lparr>msg_id = i, author = MODEL, parts = Some [TextPart t], content = None\<rparr>"

section \<open>Auxiliary lemmas\<close>

lemma digits_of_not_Nil: "digits_of n \<noteq> []"
  by (subst digits_of.simps) simp

lemma toString_not_Nil: "toString i \<noteq> []"
  by (simp add: toString_def digits_of_not_Nil)

lemma find_Some_P: "find P xs = Some x \<Longrightarrow> P x"
  by (induction xs) (auto split: if_splits)

lemma getConversation_id: "getConversation k d = Some c \<Longrightarrow> conv_id c = k"
  unfolding getConversation_def by (drule find_Some_P) simp

lemma getConversation_put: "getConversation (conv_id c) (addOrUpdateConversation c d) = Some c"
  by (simp add: getConversation_def addOrUpdateConversation_def)

section \<open>Legacy migration\<close>

text \<open>
  Claim C3. A stored message without \<^verbatim>\<open>parts\<close> whose \<^verbatim>\<open>content\<close> is a string comes out of the
  migration as the same message with exactly one text part holding that string; one
  without \<^verbatim>\<open>parts\<close> and without \<^verbatim>\<open>content\<close> comes out with exactly one empty text part; one
  that has \<^verbatim>\<open>parts\<close> is returned unchanged. Loading a stored \<^verbatim>\<open>'chat'\<close> conversation puts into
  the view exactly its messages, each migrated, in their order. Hence every message of the
  view has \<^verbatim>\<open>parts\<close> after \<^verbatim>\<open>loadConversation\<close>, whatever the identifier and the store.
\<close>

theorem C3_migration:
  "(parts msg = None \<and> content msg = Some (JsString c) \<longrightarrow>
      migrate msg = msg\<lparr>parts := Some [TextPart c]\<rparr>)
   \<and> (parts msg = None \<and> content msg = None \<longrightarrow>
      migrate msg = msg\<lparr>parts := Some [TextPart []]\<rparr>)
   \<and> (parts msg \<noteq> None \<longrightarrow> migrate msg = msg)
   \<and> parts (migrate msg) \<noteq> None
   \<and> (\<forall>m \<in> set (messages (loadConversation conversationId d st)). parts m \<noteq> None)
   \<and> (\<forall>cid convo. conversationId = Some cid \<and> cid \<noteq> []
          \<and> getConversation cid d = Some convo \<and> conv_type convo = ''chat'' \<longrightarrow>
        messages (loadConversation conversationId d st) = map migrate (conv_messages convo))"
proof -
  have each: "parts (migrate m) \<noteq> None" for m
    by (simp add: migrate_def split: option.splits js_value.splits)
  have loaded: "\<forall>m \<in> set (messages (loadConversation conversationId d st)). parts m \<noteq> None"
  proof -
    have each': "\<exists>y. parts (migrate m) = Some y" for m using each [of m] by auto
    show ?thesis
      by (auto simp add: loadConversation_def Let_def greeting_def each' split: option.splits)
  qed
  have cases: "(parts msg = None \<and> content msg = Some (JsString c) \<longrightarrow>
      migrate msg = msg\<lparr>parts := Some [TextPart c]\<rparr>)
   \<and> (parts msg = None \<and> content msg = None \<longrightarrow>
      migrate msg = msg\<lparr>parts := Some [TextPart []]\<rparr>)
   \<and> (parts msg \<noteq> None \<longrightarrow> migrate msg = msg)"
    by (auto simp add: migrate_def)
  have whole: "\<forall>cid convo. conversationId = Some cid \<and> cid \<noteq> []
          \<and> getConversation cid d = Some convo \<and> conv_type convo = ''chat'' \<longrightarrow>
        messages (loadConversation conversationId d st) = map migrate (conv_messages convo)"
    by (simp add: loadConversation_def Let_def)
  show ?thesis using cases each loaded whole by blast
qed

theorem C3_migration_witness:
  "migrate legacy_with_content = legacy_with_content\<lparr>parts := Some [TextPart ''old text'']\<rparr>
   \<and> migrate legacy_bare = legacy_bare\<lparr>parts := Some [TextPart []]\<rparr>
   \<and> migrate user_hi = user_hi
   \<and> list_all (\<lambda>m. parts m \<noteq> None)
        (messages (loadConversation (Some ''c1'') [legacy_conversation] (initial_state None)))
   \<and> messages (loadConversation (Some ''c1'') [legacy_conversation] (initial_state None))
       = [legacy_with_content\<lparr>parts := Some [TextPart ''old text'']\<rparr>,
          legacy_bare\<lparr>parts := Some [TextPart []]\<rparr>, user_hi]"
proof -
  have a: "migrate legacy_with_content
             = legacy_with_content\<lparr>parts := Some [TextPart ''old text'']\<rparr>"
    using C3_migration [of legacy_with_content "''old text''"]
    by (simp add: legacy_with_content_def)
  have b: "migrate legacy_bare = legacy_bare\<lparr>parts := Some [TextPart []]\<rparr>"
    using C3_migration [of legacy_bare] by (simp add: legacy_bare_def)
  have c: "migrate user_hi = user_hi"
    using C3_migration [of user_hi] by (simp add: user_hi_def)
  have d: "list_all (\<lambda>m. parts m \<noteq> None)
        (messages (loadConversation (Some ''c1'') [legacy_conversation] (initial_state None)))"
    using C3_migration [of user_hi _ "Some ''c1''" "[legacy_conversation]" "initial_state None"]
    by (simp add: list_all_iff)
  have stored: "getConversation ''c1'' [legacy_conversation] = Some legacy_conversation"
    "conv_type legacy_conversation = ''chat''"
    "conv_messages legacy_conversation = [legacy_with_content, legacy_bare, user_hi]"
    by (simp_all add: getConversation_def legacy_conversation_def)
  have "messages (loadConversation (Some ''c1'') [legacy_conversation] (initial_state None))
          = map migrate (conv_messages legacy_conversation)"
    using C3_migration [of user_hi _ "Some ''c1''" "[legacy_conversation]" "initial_state None"]
      stored(1) stored(2)
    by blast
  then have e: "messages (loadConversation (Some ''c1'') [legacy_conversation] (initial_state None))
       = [legacy_with_content\<lparr>parts := Some [TextPart ''old text'']\<rparr>,
          legacy_bare\<lparr>parts := Some [TextPart []]\<rparr>, user_hi]"
    using a b c stored(3) by simp
  show ?thesis using a b c d e by simp
qed

section \<open>Rejected submissions\<close>

text \<open>
  Claim C5. When the trimmed input is empty and no image is attached, or when the loading
  flag is set, \<^verbatim>\<open>handleSubmit\<close> returns with the view state and the environment as they
  were: no message is appended, the store is not written and
  \<^verbatim>\<open>addOrUpdateConversation\<close> is not called.
\<close>

theorem C5_submit_noop:
  assumes "(trim (input st) = [] \<and> uploadedImage st = None) \<or> isLoading st"
  shows "handleSubmit remote st e = Inr (st, e)"
  using assms by (simp add: handleSubmit_def submit_rejected_def)

theorem C5_submit_noop_witness:
  "handleSubmit remote_hello ((initial_state None)\<lparr>input := ''  ''\<rparr>) example_env
     = Inr ((initial_state None)\<lparr>input := ''  ''\<rparr>, example_env)
   \<and> handleSubmit remote_hello ((initial_state None)\<lparr>input := ''hi'', isLoading := True\<rparr>)
        example_env
     = Inr ((initial_state None)\<lparr>input := ''hi'', isLoading := True\<rparr>, example_env)"
proof -
  have a: "handleSubmit remote_hello ((initial_state None)\<lparr>input := ''  ''\<rparr>) example_env
     = Inr ((initial_state None)\<lparr>input := ''  ''\<rparr>, example_env)"
    by (rule C5_submit_noop) (simp add: initial_state_def trim_def is_whitespace_def)
  have b: "handleSubmit remote_hello ((initial_state None)\<lparr>input := ''hi'', isLoading := True\<rparr>)
        example_env
     = Inr ((initial_state None)\<lparr>input := ''hi'', isLoading := True\<rparr>, example_env)"
    by (rule C5_submit_noop) (simp add: initial_state_def)
  show ?thesis using a b by simp
qed

section \<open>Messages dropped by \<^verbatim>\<open>saveMessage\<close>\<close>

text \<open>
  Claim C10. When \<^verbatim>\<open>saveMessage\<close> runs with a conversation identifier set (non-empty) and
  the store holds no conversation under it, or holds one whose type is not \<^verbatim>\<open>'chat'\<close>, the
  message is dropped: the environment (store, record of writes, notifications) and the
  view state are unchanged, nothing is thrown, and the identifier is returned.
\<close>

theorem C10_save_dropped:
  assumes "currentConversationIdRef st = Some cid" and "cid \<noteq> []"
    and "getConversation cid (store e) = None
         \<or> (\<exists>c. getConversation cid (store e) = Some c \<and> conv_type c \<noteq> ''chat'')"
  shows "saveMessage m st e = Inr (cid, st, e)"
  using assms by (auto simp add: saveMessage_def)

theorem C10_save_dropped_witness:
  "saveMessage user_hi (initial_state (Some ''gone'')) example_env
     = Inr (''gone'', initial_state (Some ''gone''), example_env)
   \<and> saveMessage user_hi (initial_state (Some ''img1''))
        (example_env\<lparr>store := [image_conversation]\<rparr>)
     = Inr (''img1'', initial_state (Some ''img1''), example_env\<lparr>store := [image_conversation]\<rparr>)"
proof -
  have a: "saveMessage user_hi (initial_state (Some ''gone'')) example_env
     = Inr (''gone'', initial_state (Some ''gone''), example_env)"
    by (rule C10_save_dropped)
      (simp_all add: initial_state_def example_env_def getConversation_def)
  have b: "saveMessage user_hi (initial_state (Some ''img1''))
        (example_env\<lparr>store := [image_conversation]\<rparr>)
     = Inr (''img1'', initial_state (Some ''img1''), example_env\<lparr>store := [image_conversation]\<rparr>)"
    by (rule C10_save_dropped)
      (simp_all add: initial_state_def example_env_def getConversation_def
        image_conversation_def)
  show ?thesis using a b by simp
qed

section \<open>Loading: the greeting and the default model\<close>

text \<open>
  Claim C2, as stated, fails: with a non-empty identifier under which the store holds
  nothing, the view's message list becomes empty, not the single greeting.
\<close>

theorem C2_load_counterexample:
  "getConversation ''gone'' [] = None
   \<and> messages (loadConversation (Some ''gone'') [] (initial_state None)) = []
   \<and> messages (loadConversation (Some ''gone'') [] (initial_state None)) \<noteq> [greeting]"
  by (simp add: loadConversation_def getConversation_def)

text \<open>
  Claim C2, amended. When the identifier is empty (\<^verbatim>\<open>null\<close> or the empty string), the view's
  message list becomes the single greeting, authored by \<^verbatim>\<open>MODEL\<close>, and the chat model is
  reset to \<^verbatim>\<open>'gemini-2.5-flash'\<close>. When the identifier is non-empty and the store holds no
  conversation under it, or one that is not of type \<^verbatim>\<open>'chat'\<close>, the message list becomes
  empty and the chat model is reset to \<^verbatim>\<open>'gemini-2.5-flash'\<close>.
\<close>

theorem C2_load_amended:
  "(conversationId = None \<or> conversationId = Some [] \<longrightarrow>
      messages (loadConversation conversationId d st) = [greeting]
      \<and> author greeting = MODEL
      \<and> model (loadConversation conversationId d st) = ''gemini-2.5-flash'')
   \<and> (\<forall>cid. conversationId = Some cid \<and> cid \<noteq> []
         \<and> (getConversation cid d = None
            \<or> (\<exists>c. getConversation cid d = Some c \<and> conv_type c \<noteq> ''chat'')) \<longrightarrow>
      messages (loadConversation conversationId d st) = []
      \<and> model (loadConversation conversationId d st) = ''gemini-2.5-flash'')"
  by (auto simp add: loadConversation_def Let_def default_model_def greeting_def)

theorem C2_load_amended_witness:
  "messages (loadConversation None [legacy_conversation] ((initial_state (Some ''c1''))\<lparr>model := ''gemini-2.5-pro''\<rparr>)) = [greeting]
   \<and> model (loadConversation None [legacy_conversation] ((initial_state (Some ''c1''))\<lparr>model := ''gemini-2.5-pro''\<rparr>)) = ''gemini-2.5-flash''
   \<and> messages (loadConversation (Some ''img1'') [image_conversation] ((initial_state None)\<lparr>messages := [user_hi], model := ''gemini-2.5-pro''\<rparr>)) = []
   \<and> model (loadConversation (Some ''img1'') [image_conversation] ((initial_state None)\<lparr>messages := [user_hi], model := ''gemini-2.5-pro''\<rparr>)) = ''gemini-2.5-flash''"
proof -
  have a: "messages (loadConversation None [legacy_conversation] ((initial_state (Some ''c1''))\<lparr>model := ''gemini-2.5-pro''\<rparr>)) = [greeting]
   \<and> model (loadConversation None [legacy_conversation] ((initial_state (Some ''c1''))\<lparr>model := ''gemini-2.5-pro''\<rparr>)) = ''gemini-2.5-flash''"
    using C2_load_amended [of None "[legacy_conversation]"] by simp
  have "getConversation ''img1'' [image_conversation] = Some image_conversation"
    and "conv_type image_conversation \<noteq> ''chat''"
    by (simp_all add: getConversation_def image_conversation_def)
  then have b: "messages (loadConversation (Some ''img1'') [image_conversation] ((initial_state None)\<lparr>messages := [user_hi], model := ''gemini-2.5-pro''\<rparr>)) = []
   \<and> model (loadConversation (Some ''img1'') [image_conversation] ((initial_state None)\<lparr>messages := [user_hi], model := ''gemini-2.5-pro''\<rparr>)) = ''gemini-2.5-flash''"
    using C2_load_amended [of "Some ''img1''" "[image_conversation]"] by simp
  show ?thesis using a b by simp
qed

section \<open>The chat stream never throws\<close>

lemma for_await_stream_of:
  "for_await (stream_of ys tail) = (ys @ fst (for_await tail), snd (for_await tail))"
  by (induction ys) (simp_all add: case_prod_beta)

text \<open>
  Claim C4. No exception leaves \<^verbatim>\<open>getChatResponseStream\<close>: the caller only sees text
  fragments. Whenever the \<^verbatim>\<open>try\<close> block fails after yielding the fragments \<open>ys\<close>, the
  sequence is \<open>ys\<close> followed by the one apology fragment, and it ends there. This covers
  a failure while building the request, a rejected remote call (the apology alone) and a
  stream that throws after some chunks.
\<close>

theorem C4_stream_apology:
  "snd (getChatResponseStream remote msgs mdl) = None
   \<and> (\<forall>ys err. stream_try_block remote msgs mdl = (ys, Some err) \<longrightarrow>
         fst (getChatResponseStream remote msgs mdl) = ys @ [chat_apology])
   \<and> (\<forall>err. buildContents msgs = Inl err \<longrightarrow>
         getChatResponseStream remote msgs mdl = ([chat_apology], None))
   \<and> (\<forall>contents err. buildContents msgs = Inr contents \<and> remote mdl contents = Inl err \<longrightarrow>
         getChatResponseStream remote msgs mdl = ([chat_apology], None))
   \<and> (\<forall>contents ys err. buildContents msgs = Inr contents
           \<and> remote mdl contents = Inr (stream_of ys (StreamThrow err)) \<longrightarrow>
         getChatResponseStream remote msgs mdl = (ys @ [chat_apology], None))"
  by (auto simp add: getChatResponseStream_def stream_try_block_def for_await_stream_of
      split: prod.splits option.splits sum.splits)

theorem C4_stream_apology_witness:
  "getChatResponseStream remote_rejects [user_hi] ''gemini-2.5-flash'' = ([chat_apology], None)
   \<and> getChatResponseStream remote_breaks [user_hi] ''gemini-2.5-flash'' = ([''Hel'', chat_apology], None)
   \<and> getChatResponseStream remote_hello [legacy_bare] ''gemini-2.5-flash'' = ([chat_apology], None)"
proof -
  have bc: "buildContents [user_hi] = Inr [\<lparr>role = ''user'', content_parts = [TextData ''hi'']\<rparr>]"
    by (simp add: buildContents_def to_content_def user_hi_def)
  have a: "getChatResponseStream remote_rejects [user_hi] ''gemini-2.5-flash'' = ([chat_apology], None)"
    using C4_stream_apology [of remote_rejects "[user_hi]" "''gemini-2.5-flash''"] bc
    by (simp add: remote_rejects_def)
  have r: "remote_breaks ''gemini-2.5-flash'' [\<lparr>role = ''user'', content_parts = [TextData ''hi'']\<rparr>]
          = Inr (stream_of [''Hel''] (StreamThrow (RemoteError ''reset'')))"
    by (simp add: remote_breaks_def)
  have "getChatResponseStream remote_breaks [user_hi] ''gemini-2.5-flash''
          = ([''Hel''] @ [chat_apology], None)"
    using C4_stream_apology [of remote_breaks "[user_hi]" "''gemini-2.5-flash''"] bc r
    by blast
  then have b: "getChatResponseStream remote_breaks [user_hi] ''gemini-2.5-flash''
          = ([''Hel'', chat_apology], None)"
    by simp
  have "buildContents [legacy_bare] = Inl TypeError"
    by (simp add: buildContents_def legacy_bare_def)
  then have c: "getChatResponseStream remote_hello [legacy_bare] ''gemini-2.5-flash'' = ([chat_apology], None)"
    using C4_stream_apology [of remote_hello "[legacy_bare]" "''gemini-2.5-flash''"] by simp
  show ?thesis using a b c by simp
qed


section \<open>The title of a new conversation\<close>

lemma first_text_texts_of:
  "first_text ps = (case texts_of ps of [] \<Rightarrow> None | t # ts \<Rightarrow> Some t)"
proof (induction ps)
  case Nil
  then show ?case by (simp add: first_text_def)
next
  case (Cons p ps)
  then show ?case by (cases p) (simp_all add: first_text_def)
qed

lemma conversation_title_cases:
  "conversation_title t = (if length t > 40 then take 40 t @ ''...'' else t)"
  by (simp add: conversation_title_def)

section \<open>What \<^verbatim>\<open>saveMessage\<close> does to the store\<close>

lemma can_persist_cong:
  "currentConversationIdRef st = currentConversationIdRef st' \<Longrightarrow> store e = store e'
     \<Longrightarrow> can_persist st e = can_persist st' e'"
  by (simp add: can_persist_def cong: option.case_cong)

lemma persisted_cong: "store e = store e' \<Longrightarrow> persisted cid m e = persisted cid m e'"
  by (simp add: persisted_def)

lemma persisted_can_persist:
  "persisted cid m e \<Longrightarrow> currentConversationIdRef st = Some cid \<Longrightarrow> can_persist st e"
  by (auto simp add: persisted_def can_persist_def split: option.splits)

lemma createConversation_persists:
  assumes "parts m = Some ps"
  shows "\<exists>cid e'. createConversation m st e
             = Inr (cid, st\<lparr>currentConversationIdRef := Some cid\<rparr>, e')
           \<and> cid \<noteq> [] \<and> persisted cid m e'"
  using assms
  by (simp add: createConversation_def Date_now_def Let_def onConversationCreated_def db_put_def
      persisted_def toString_not_Nil getConversation_def addOrUpdateConversation_def)

lemma saveMessage_persists:
  assumes "parts m \<noteq> None" and "can_persist st e"
  shows "\<exists>cid e'. saveMessage m st e = Inr (cid, st\<lparr>currentConversationIdRef := Some cid\<rparr>, e')
           \<and> cid \<noteq> [] \<and> persisted cid m e'"
proof -
  obtain ps where ps: "parts m = Some ps" using assms(1) by auto
  show ?thesis
  proof (cases "currentConversationIdRef st")
    case None
    then show ?thesis
      using createConversation_persists [OF ps, of st e] by (simp add: saveMessage_def)
  next
    case (Some cid)
    show ?thesis
    proof (cases "cid = []")
      case True
      then show ?thesis
        using Some createConversation_persists [OF ps, of st e] by (simp add: saveMessage_def)
    next
      case False
      with Some assms(2) obtain c where c: "getConversation cid (store e) = Some c"
        and chat: "conv_type c = ''chat''"
        by (auto simp add: can_persist_def split: option.splits)
      have cid: "conv_id c = cid" using c by (rule getConversation_id)
      let ?c' = "c\<lparr>conv_messages := conv_messages c @ [m]\<rparr>"
      have "getConversation cid (store (db_put ?c' e)) = Some ?c'"
        using getConversation_put [of ?c' "store e"] cid by (simp add: db_put_def)
      then have "persisted cid m (db_put ?c' e)"
        using chat by (simp add: persisted_def)
      moreover have "saveMessage m st e = Inr (cid, st, db_put ?c' e)"
        using Some False c chat by (simp add: saveMessage_def)
      moreover have "st\<lparr>currentConversationIdRef := Some cid\<rparr> = st"
        using Some by simp
      ultimately show ?thesis using False by auto
    qed
  qed
qed

lemma saveMessage_dropped:
  assumes "\<not> can_persist st e"
  shows "\<exists>cid. currentConversationIdRef st = Some cid \<and> cid \<noteq> []
           \<and> saveMessage m st e = Inr (cid, st, e)"
  using assms
  by (auto simp add: can_persist_def saveMessage_def split: option.splits)

lemma saveMessage_total:
  assumes "parts m \<noteq> None"
  shows "\<exists>cid e'. saveMessage m st e = Inr (cid, st\<lparr>currentConversationIdRef := Some cid\<rparr>, e')
           \<and> cid \<noteq> []
           \<and> (can_persist st e \<longrightarrow> persisted cid m e')
           \<and> (\<not> can_persist st e \<longrightarrow> e' = e \<and> currentConversationIdRef st = Some cid)
           \<and> (\<forall>c. getConversation cid (store e') = Some c \<and> conv_type c = ''chat''
                 \<longrightarrow> persisted cid m e')"
proof (cases "can_persist st e")
  case True
  then show ?thesis using saveMessage_persists [OF assms True] by auto
next
  case False
  then obtain cid where ref: "currentConversationIdRef st = Some cid" and ne: "cid \<noteq> []"
    and save: "saveMessage m st e = Inr (cid, st, e)"
    using saveMessage_dropped [of st e m] by auto
  have "st\<lparr>currentConversationIdRef := Some cid\<rparr> = st" using ref by simp
  moreover have "\<forall>c. getConversation cid (store e) = Some c \<and> conv_type c = ''chat''
                 \<longrightarrow> persisted cid m e"
    using False ref ne by (auto simp add: can_persist_def)
  ultimately show ?thesis using False ref ne save by auto
qed

section \<open>Streaming accumulation\<close>

lemma receive_chunk_pair:
  "receive_chunk mid (acc, st) chunk =
     (acc @ chunk,
      st\<lparr>messages :=
           map (\<lambda>msg. if msg_id msg = mid
                      then msg\<lparr>parts := Some [TextPart (acc @ chunk)]\<rparr> else msg)
               (messages st)\<rparr>)"
  by (simp add: receive_chunk_def Let_def)

lemma receive_chunk_fold_fst:
  "fst (foldl (receive_chunk mid) (acc, st) frags) = acc @ concat frags"
  by (induction frags arbitrary: acc st) (simp_all add: receive_chunk_pair)

lemma set_text_twice:
  "map (\<lambda>msg. if msg_id msg = mid then msg\<lparr>parts := Some [TextPart b]\<rparr> else msg)
     (map (\<lambda>msg. if msg_id msg = mid then msg\<lparr>parts := Some [TextPart a]\<rparr> else msg) ms)
   = map (\<lambda>msg. if msg_id msg = mid then msg\<lparr>parts := Some [TextPart b]\<rparr> else msg) ms"
  by (induction ms) simp_all

lemma receive_chunk_fold_snd:
  "snd (foldl (receive_chunk mid) (acc, st) frags) =
     (if frags = [] then st
      else st\<lparr>messages :=
                map (\<lambda>msg. if msg_id msg = mid
                           then msg\<lparr>parts := Some [TextPart (acc @ concat frags)]\<rparr> else msg)
                    (messages st)\<rparr>)"
proof (induction frags arbitrary: acc st)
  case Nil
  then show ?case by simp
next
  case (Cons f frags)
  show ?case
  proof (cases "frags = []")
    case True
    then show ?thesis by (simp add: receive_chunk_pair)
  next
    case False
    then show ?thesis
      by (simp add: receive_chunk_pair Cons.IH set_text_twice)
  qed
qed

lemma stream_loop_eq:
  "stream_loop mid frags st =
     (concat frags,
      if frags = [] then st
      else st\<lparr>messages :=
                map (\<lambda>msg. if msg_id msg = mid
                           then msg\<lparr>parts := Some [TextPart (concat frags)]\<rparr> else msg)
                    (messages st)\<rparr>)"
  using receive_chunk_fold_fst [of mid "[]" st frags] receive_chunk_fold_snd [of mid "[]" st frags]
  by (simp add: stream_loop_def prod_eq_iff)

lemma stream_loop_placeholder:
  assumes "messages st = ms @ [placeholder]" and "parts placeholder = Some [TextPart []]"
  shows "last (messages (snd (stream_loop (msg_id placeholder) frags st)))
           = placeholder\<lparr>parts := Some [TextPart (concat frags)]\<rparr>"
  using assms by (simp add: stream_loop_eq)

lemma stream_loop_frame:
  "currentConversationIdRef (snd (stream_loop mid frags st)) = currentConversationIdRef st"
  by (simp add: stream_loop_eq)

lemma submit_start_facts:
  assumes "submit_start st e = Inr (history, modelMessage, st1, e1)"
  shows "messages st1 = history @ [modelMessage]"
    and "parts modelMessage = Some [TextPart []]"
    and "author modelMessage = MODEL"
    and "can_persist st e \<longrightarrow> can_persist st1 e1"
    and "\<exists>now0. history = updatedMessages st
           \<lparr>msg_id = toString now0, author = USER, parts = Some (userParts st), content = None\<rparr>"
proof -
  define um where "um = \<lparr>msg_id = toString (clock e (ticks e)), author = USER,
    parts = Some (userParts st), content = None\<rparr>"
  define sa where "sa = st\<lparr>messages := updatedMessages st um, input := [],
    uploadedImage := None, isLoading := True\<rparr>"
  define ea where "ea = e\<lparr>ticks := Suc (ticks e)\<rparr>"
  have pm: "parts um \<noteq> None" by (simp add: um_def)
  obtain cid eb where save: "saveMessage um sa ea
       = Inr (cid, sa\<lparr>currentConversationIdRef := Some cid\<rparr>, eb)"
    and ne: "cid \<noteq> []" and pers: "can_persist sa ea \<longrightarrow> persisted cid um eb"
    using saveMessage_total [OF pm, of sa ea] by blast
  have start: "submit_start st e =
      Inr (updatedMessages st um,
           \<lparr>msg_id = toString (clock eb (ticks eb) + 1), author = MODEL,
            parts = Some [TextPart []], content = None\<rparr>,
           sa\<lparr>currentConversationIdRef := Some cid,
              messages := messages sa @ [\<lparr>msg_id = toString (clock eb (ticks eb) + 1),
                 author = MODEL, parts = Some [TextPart []], content = None\<rparr>]\<rparr>,
           eb\<lparr>ticks := Suc (ticks eb)\<rparr>)"
    using save by (simp add: submit_start_def Date_now_def Let_def um_def sa_def ea_def)
  have h: "history = updatedMessages st um" using assms start by simp
  have mm: "modelMessage = \<lparr>msg_id = toString (clock eb (ticks eb) + 1), author = MODEL,
            parts = Some [TextPart []], content = None\<rparr>" using assms start by simp
  have s1: "st1 = sa\<lparr>currentConversationIdRef := Some cid,
              messages := messages sa @ [modelMessage]\<rparr>" using assms start mm by simp
  have e1: "e1 = eb\<lparr>ticks := Suc (ticks eb)\<rparr>" using assms start by simp
  show "messages st1 = history @ [modelMessage]" using s1 h by (simp add: sa_def)
  show "parts modelMessage = Some [TextPart []]" using mm by simp
  show "author modelMessage = MODEL" using mm by simp
  show "\<exists>now0. history = updatedMessages st
           \<lparr>msg_id = toString now0, author = USER, parts = Some (userParts st), content = None\<rparr>"
    using h um_def by blast
  show "can_persist st e \<longrightarrow> can_persist st1 e1"
  proof
    assume "can_persist st e"
    then have "can_persist sa ea"
      using can_persist_cong [of st sa e ea] by (simp add: sa_def ea_def)
    then have "persisted cid um eb" using pers by simp
    then have "persisted cid um e1" using persisted_cong [of eb e1] e1 by simp
    then show "can_persist st1 e1" using s1 by (simp add: persisted_can_persist)
  qed
qed


lemma getChatResponseStream_snd: "snd (getChatResponseStream remote msgs mdl) = None"
  by (simp add: getChatResponseStream_def split: prod.splits option.splits)

text \<open>
  Claim C1. Let \<^verbatim>\<open>handleSubmit\<close> have passed its guard and appended the placeholder
  \<open>modelMessage\<close> (state \<open>st1\<close>). For every sequence of fragments and every \<open>n\<close> up to its
  length, after the loop has received the first \<open>n\<close> fragments the accumulator is their
  concatenation in arrival order and the placeholder, the last message of the view, has
  that concatenation as its sole text part. When the stream is finished, \<^verbatim>\<open>handleSubmit\<close>
  returns normally; the message it hands to \<^verbatim>\<open>saveMessage\<close> and leaves last in the view is
  the placeholder with the concatenation of all fragments the service yielded as its sole
  text part; any \<^verbatim>\<open>'chat'\<close> conversation the store then holds under the current identifier
  ends with that message, and the store does hold one whenever \<^verbatim>\<open>saveMessage\<close> could write
  at the start.
\<close>

theorem C1_stream_accumulation:
  assumes "\<not> submit_rejected st"
    and "submit_start st e = Inr (history, modelMessage, st1, e1)"
  shows "(\<forall>frags n. n \<le> length frags \<longrightarrow>
            fst (stream_loop (msg_id modelMessage) (take n frags) st1) = concat (take n frags)
            \<and> last (messages (snd (stream_loop (msg_id modelMessage) (take n frags) st1)))
                = modelMessage\<lparr>parts := Some [TextPart (concat (take n frags))]\<rparr>)
    \<and> (\<exists>st' e' final.
          final = modelMessage\<lparr>parts :=
                    Some [TextPart (concat (fst (getChatResponseStream remote history (model st))))]\<rparr>
          \<and> handleSubmit remote st e = Inr (st', e')
          \<and> last (messages st') = final
          \<and> (\<forall>cid c. currentConversationIdRef st' = Some cid
                \<and> getConversation cid (store e') = Some c \<and> conv_type c = ''chat''
                \<longrightarrow> conv_messages c \<noteq> [] \<and> last (conv_messages c) = final)
          \<and> (can_persist st e \<longrightarrow>
                (\<exists>cid. currentConversationIdRef st' = Some cid \<and> persisted cid final e')))"
proof -
  note facts = submit_start_facts [OF assms(2)]
  have loop: "last (messages (snd (stream_loop (msg_id modelMessage) fs st1)))
                = modelMessage\<lparr>parts := Some [TextPart (concat fs)]\<rparr>" for fs
    using facts(1) facts(2) by (rule stream_loop_placeholder)
  have acc: "fst (stream_loop (msg_id modelMessage) fs st1) = concat fs" for fs
    by (simp add: stream_loop_eq)
  define frags where "frags = fst (getChatResponseStream remote history (model st))"
  define final where "final = modelMessage\<lparr>parts := Some [TextPart (concat frags)]\<rparr>"
  define st2 where "st2 = snd (stream_loop (msg_id modelMessage) frags st1)"
  have gen: "getChatResponseStream remote history (model st) = (frags, None)"
    using getChatResponseStream_snd [of remote history "model st"]
    by (simp add: frags_def prod_eq_iff)
  have sl: "stream_loop (msg_id modelMessage) frags st1 = (concat frags, st2)"
    using acc [of frags] by (simp add: st2_def prod_eq_iff)
  have pf: "parts final \<noteq> None" by (simp add: final_def)
  obtain cid e' where save: "saveMessage final (st2\<lparr>isLoading := False\<rparr>) e1
       = Inr (cid, st2\<lparr>isLoading := False, currentConversationIdRef := Some cid\<rparr>, e')"
    and pers: "can_persist (st2\<lparr>isLoading := False\<rparr>) e1 \<longrightarrow> persisted cid final e'"
    and any: "\<forall>c. getConversation cid (store e') = Some c \<and> conv_type c = ''chat''
                 \<longrightarrow> persisted cid final e'"
    using saveMessage_total [OF pf, of "st2\<lparr>isLoading := False\<rparr>" e1] by auto
  let ?st' = "st2\<lparr>isLoading := False, currentConversationIdRef := Some cid\<rparr>"
  have run: "handleSubmit remote st e = Inr (?st', e')"
    using assms gen sl save
    by (simp add: handleSubmit_def submit_finish_def Let_def final_def)
  have lastm: "last (messages ?st') = final"
    using loop [of frags] by (simp add: st2_def final_def)
  have stored: "\<forall>cid' c. currentConversationIdRef ?st' = Some cid'
                \<and> getConversation cid' (store e') = Some c \<and> conv_type c = ''chat''
                \<longrightarrow> conv_messages c \<noteq> [] \<and> last (conv_messages c) = final"
    using any by (auto simp add: persisted_def)
  have kept: "can_persist st e \<longrightarrow>
                (\<exists>cid'. currentConversationIdRef ?st' = Some cid' \<and> persisted cid' final e')"
  proof
    assume "can_persist st e"
    then have "can_persist st1 e1" using facts(4) by simp
    moreover have "currentConversationIdRef (st2\<lparr>isLoading := False\<rparr>)
                     = currentConversationIdRef st1"
      by (simp add: st2_def stream_loop_frame)
    ultimately have "can_persist (st2\<lparr>isLoading := False\<rparr>) e1"
      using can_persist_cong [of "st2\<lparr>isLoading := False\<rparr>" st1 e1 e1] by simp
    then show "\<exists>cid'. currentConversationIdRef ?st' = Some cid' \<and> persisted cid' final e'"
      using pers by simp
  qed
  have second: "\<exists>st' e' final'.
          final' = modelMessage\<lparr>parts :=
                    Some [TextPart (concat (fst (getChatResponseStream remote history (model st))))]\<rparr>
          \<and> handleSubmit remote st e = Inr (st', e')
          \<and> last (messages st') = final'
          \<and> (\<forall>cid c. currentConversationIdRef st' = Some cid
                \<and> getConversation cid (store e') = Some c \<and> conv_type c = ''chat''
                \<longrightarrow> conv_messages c \<noteq> [] \<and> last (conv_messages c) = final')
          \<and> (can_persist st e \<longrightarrow>
                (\<exists>cid. currentConversationIdRef st' = Some cid \<and> persisted cid final' e'))"
    using run lastm stored kept unfolding final_def frags_def by blast
  show ?thesis using loop acc second by blast
qed

theorem C1_stream_accumulation_witness:
  "(\<exists>st1 e1. submit_start hi_state example_env = Inr ([\<lparr>msg_id = ''1000'', author = USER,
         parts = Some [TextPart ''hi''], content = None\<rparr>], reply_1004 [], st1, e1)
      \<and> last (messages (snd (stream_loop ''1004'' [''Hel''] st1))) = reply_1004 ''Hel''
      \<and> last (messages (snd (stream_loop ''1004'' [''Hel'', ''lo''] st1))) = reply_1004 ''Hello'')
   \<and> last (outcome_messages (handleSubmit remote_hello hi_state example_env)) = reply_1004 ''Hello''
   \<and> outcome_persisted (reply_1004 ''Hello'') (handleSubmit remote_hello hi_state example_env)"
proof -
  have ts: "toString 1000 = ''1000''" "toString 1001 = ''1001''" "toString 1004 = ''1004''"
    by (simp_all add: toString_def digits_of.simps digit_char_def)
  have guard: "\<not> submit_rejected hi_state"
    by (simp add: submit_rejected_def hi_state_def loadConversation_def initial_state_def
        trim_def is_whitespace_def)
  have "\<exists>st1 e1. submit_start hi_state example_env = Inr ([\<lparr>msg_id = ''1000'', author = USER,
         parts = Some [TextPart ''hi''], content = None\<rparr>], reply_1004 [], st1, e1)"
    by (simp add: submit_start_def hi_state_def loadConversation_def initial_state_def
        example_env_def Date_now_def Let_def updatedMessages_def userParts_def greeting_def
        trim_def is_whitespace_def saveMessage_def createConversation_def db_put_def
        onConversationCreated_def reply_1004_def ts)
  then obtain st1 e1 where start: "submit_start hi_state example_env
      = Inr ([\<lparr>msg_id = ''1000'', author = USER, parts = Some [TextPart ''hi''],
               content = None\<rparr>], reply_1004 [], st1, e1)"
    by blast
  have frags: "fst (getChatResponseStream remote_hello [\<lparr>msg_id = ''1000'', author = USER,
         parts = Some [TextPart ''hi''], content = None\<rparr>] (model hi_state)) = [''Hel'', ''lo'']"
    by (simp add: getChatResponseStream_def stream_try_block_def buildContents_def
        to_content_def remote_hello_def)
  have cp: "can_persist hi_state example_env"
    by (simp add: can_persist_def hi_state_def loadConversation_def initial_state_def)
  note inst = C1_stream_accumulation [OF guard start, of remote_hello]
  have one: "last (messages (snd (stream_loop ''1004'' [''Hel''] st1))) = reply_1004 ''Hel''"
    using inst [THEN conjunct1, rule_format, of 1 "[''Hel'', ''lo'']"]
    by (simp add: reply_1004_def)
  have two: "last (messages (snd (stream_loop ''1004'' [''Hel'', ''lo''] st1))) = reply_1004 ''Hello''"
    using inst [THEN conjunct1, rule_format, of 2 "[''Hel'', ''lo'']"]
    by (simp add: reply_1004_def)
  have fin: "last (outcome_messages (handleSubmit remote_hello hi_state example_env)) = reply_1004 ''Hello''
     \<and> outcome_persisted (reply_1004 ''Hello'') (handleSubmit remote_hello hi_state example_env)"
    using inst [THEN conjunct2] frags cp
    by (auto simp add: outcome_messages_def outcome_persisted_def reply_1004_def)
  show ?thesis using start one two fin by blast
qed

section \<open>The history sent to the service\<close>

lemma digit_char_in: "digit_char d \<in> set ''0123456789''"
  unfolding digit_char_def by (rule nth_mem) simp

lemma digit_char_not_l: "digit_char d \<noteq> CHR ''l''"
proof
  assume "digit_char d = CHR ''l''"
  then have "CHR ''l'' \<in> set ''0123456789''" using digit_char_in [of d] by simp
  then show False by simp
qed

lemma last_digits_of: "last (digits_of n) = digit_char (n mod 10)"
  by (subst digits_of.simps) (simp add: digit_char_def)

lemma last_toString: "\<exists>d. last (toString i) = digit_char d"
  by (auto simp add: toString_def last_digits_of digits_of_not_Nil)

lemma toString_not_initial: "toString i \<noteq> ''initial''"
proof
  assume "toString i = ''initial''"
  then have "last (toString i) = CHR ''l''" by simp
  then obtain d where "digit_char d = CHR ''l''" using last_toString [of i] by metis
  then show False using digit_char_not_l [of d] by simp
qed

lemma push_part_fold:
  "foldl push_part acc ps = acc @ List.map_filter spec_wire_part ps"
proof (induction ps arbitrary: acc)
  case Nil
  then show ?case by simp
next
  case (Cons p ps)
  then show ?case by (cases p) simp_all
qed

lemma some_text_or_image:
  "list_ex is_text_or_image ps = (List.map_filter spec_wire_part ps \<noteq> [])"
proof (induction ps)
  case Nil
  then show ?case by simp
next
  case (Cons p ps)
  then show ?case by (cases p) simp_all
qed

lemma to_content_spec: "parts m \<noteq> None \<Longrightarrow> to_content m = Inr (spec_wire_message m)"
  by (cases "author m")
    (auto simp add: to_content_def spec_wire_message_def message_parts_def push_part_fold)

lemma map_contents_spec:
  "\<forall>m \<in> set ms. parts m \<noteq> None \<Longrightarrow> map_contents ms = Inr (map spec_wire_message ms)"
proof (induction ms)
  case Nil
  then show ?case by simp
next
  case (Cons m ms)
  then have "to_content m = Inr (spec_wire_message m)" by (simp add: to_content_spec)
  then show ?case using Cons by simp
qed

lemma filter_sendable_spec:
  "\<forall>m \<in> set ms. parts m \<noteq> None \<Longrightarrow>
     filter_sendable ms
       = Inr (filter (\<lambda>m. List.map_filter spec_wire_part (message_parts m) \<noteq> []) ms)"
proof (induction ms)
  case Nil
  then show ?case by simp
next
  case (Cons m ms)
  then obtain ps where ps: "parts m = Some ps" by auto
  then show ?case using Cons by (simp add: some_text_or_image message_parts_def)
qed

lemma buildContents_spec:
  assumes "\<forall>m \<in> set ms. parts m \<noteq> None"
  shows "buildContents ms = Inr (spec_wire_history ms)"
proof -
  have "\<forall>m \<in> set (filter (\<lambda>m. List.map_filter spec_wire_part (message_parts m) \<noteq> []) ms).
          parts m \<noteq> None"
    using assms by simp
  then show ?thesis
    using filter_sendable_spec [OF assms]
    by (simp add: buildContents_def spec_wire_history_def map_contents_spec)
qed

section \<open>Image generation that fails\<close>

lemma ts_examples:
  "toString 1000 = ''1000''" "toString 1001 = ''1001''" "toString 1002 = ''1002''"
  "toString 1004 = ''1004''" "toString 7 = ''7''"
  by (simp_all add: toString_def digits_of.simps digit_char_def)

text \<open>
  Claim C8, as stated, fails: with an identifier set under which the store holds no
  conversation, a failing request still puts the apology message into the view, but
  nothing is written to the store, so the message is not persisted.
\<close>

theorem C8_generation_counterexample:
  "\<not> generate_rejected (cat_state (Some ''gone''))
   \<and> generateImage images_fail ''a cat'' (generation_params (cat_state (Some ''gone''))) = Inr None
   \<and> outcome_messages (handleGenerateImage images_fail (cat_state (Some ''gone'')) example_env)
       = [cat_request ''1000'', apology_message ''1002'']
   \<and> outcome_writes (handleGenerateImage images_fail (cat_state (Some ''gone'')) example_env) = []
   \<and> outcome_store (handleGenerateImage images_fail (cat_state (Some ''gone'')) example_env) = []
   \<and> \<not> outcome_persisted (apology_message ''1002'')
         (handleGenerateImage images_fail (cat_state (Some ''gone'')) example_env)"
  by (simp add: generate_rejected_def cat_state_def loadConversation_def initial_state_def
      getConversation_def trim_def is_whitespace_def generateImage_def generate_try_block_def
      images_fail_def handleGenerateImage_def example_env_def Date_now_def Let_def
      saveMessage_def generation_reply_def image_apology_def outcome_messages_def
      outcome_writes_def outcome_store_def outcome_persisted_def persisted_def
      cat_request_def apology_message_def ts_examples)


lemma generateImage_never_throws: "\<exists>v. generateImage remote p ps = Inr v"
  by (simp add: generateImage_def split: sum.splits)

lemma generateImage_absent:
  assumes "remote (param_model ps) p (image_config_of ps) = Inl err
           \<or> (\<exists>resp. remote (param_model ps) p (image_config_of ps) = Inr resp
                \<and> (generatedImages resp = None \<or> generatedImages resp = Some []))"
  shows "generateImage remote p ps = Inr None"
  using assms by (auto simp add: generateImage_def generate_try_block_def)

text \<open>
  Claim C8, amended. When the remote call of an image generation request fails or returns
  no images, \<^verbatim>\<open>generateImage\<close> returns \<^verbatim>\<open>null\<close> and does not throw; \<^verbatim>\<open>handleGenerateImage\<close>
  returns normally, the last message of the view is a \<^verbatim>\<open>MODEL\<close> message whose sole part is
  the text \<^verbatim>\<open>Sorry, I failed to generate the image. Please try again.\<close>, and that message
  is handed to \<^verbatim>\<open>saveMessage\<close>: it is persisted when \<^verbatim>\<open>saveMessage\<close> could write at the start
  (no identifier set, or a \<^verbatim>\<open>'chat'\<close> conversation stored under it), and otherwise the store
  is left unwritten.
\<close>

theorem C8_generation_failure_amended:
  assumes "\<not> generate_rejected st"
    and "remote (genModel st) (genPrompt st) (image_config_of (generation_params st)) = Inl err
         \<or> (\<exists>resp. remote (genModel st) (genPrompt st) (image_config_of (generation_params st))
                     = Inr resp
              \<and> (generatedImages resp = None \<or> generatedImages resp = Some []))"
  shows "generateImage remote (genPrompt st) (generation_params st) = Inr None
    \<and> (\<exists>st' e' now1 reply.
          reply = \<lparr>msg_id = toString (now1 + 1), author = MODEL,
                   parts = Some [TextPart
                     ''Sorry, I failed to generate the image. Please try again.''],
                   content = None\<rparr>
          \<and> handleGenerateImage remote st e = Inr (st', e')
          \<and> messages st' \<noteq> [] \<and> last (messages st') = reply
          \<and> (can_persist st e \<longrightarrow>
                (\<exists>cid. currentConversationIdRef st' = Some cid \<and> persisted cid reply e'))
          \<and> (\<not> can_persist st e \<longrightarrow> store e' = store e \<and> writes e' = writes e))"
proof -
  have pm: "param_model (generation_params st) = genModel st"
    by (simp add: generation_params_def)
  have absent: "generateImage remote (genPrompt st) (generation_params st) = Inr None"
    using assms(2) generateImage_absent [of remote "generation_params st" "genPrompt st" err]
    by (simp add: pm)
  define um where "um = \<lparr>msg_id = toString (clock e (ticks e)), author = USER,
    parts = Some [TextPart (''Generate image: '' @ [CHR 0x22] @ genPrompt st @ [CHR 0x22])],
    content = None\<rparr>"
  define sa where "sa = st\<lparr>isLoading := True, showGenerationPanel := False,
    messages := filter (\<lambda>m. msg_id m \<noteq> ''initial'') (messages st) @ [um]\<rparr>"
  define ea where "ea = e\<lparr>ticks := Suc (ticks e)\<rparr>"
  have pum: "parts um \<noteq> None" by (simp add: um_def)
  obtain cid eb where save1: "saveMessage um sa ea
       = Inr (cid, sa\<lparr>currentConversationIdRef := Some cid\<rparr>, eb)"
    and pers1: "can_persist sa ea \<longrightarrow> persisted cid um eb"
    and drop1: "\<not> can_persist sa ea \<longrightarrow> eb = ea \<and> currentConversationIdRef sa = Some cid"
    using saveMessage_total [OF pum, of sa ea] by blast
  define reply where "reply = \<lparr>msg_id = toString (clock eb (ticks eb) + 1), author = MODEL,
    parts = Some [TextPart ''Sorry, I failed to generate the image. Please try again.''],
    content = None\<rparr>"
  define sb where "sb = sa\<lparr>currentConversationIdRef := Some cid,
    messages := messages sa @ [reply]\<rparr>"
  define ec where "ec = eb\<lparr>ticks := Suc (ticks eb)\<rparr>"
  have prep: "parts reply \<noteq> None" by (simp add: reply_def)
  obtain cid' ed where save2: "saveMessage reply sb ec
       = Inr (cid', sb\<lparr>currentConversationIdRef := Some cid'\<rparr>, ed)"
    and pers2: "can_persist sb ec \<longrightarrow> persisted cid' reply ed"
    and drop2: "\<not> can_persist sb ec \<longrightarrow> ed = ec \<and> currentConversationIdRef sb = Some cid'"
    using saveMessage_total [OF prep, of sb ec] by blast
  let ?st' = "sb\<lparr>currentConversationIdRef := Some cid', genPrompt := [], isLoading := False\<rparr>"
  have run: "handleGenerateImage remote st e = Inr (?st', ed)"
    using assms(1) save1 absent save2
    by (simp add: handleGenerateImage_def Date_now_def Let_def generation_reply_def
        image_apology_def um_def sa_def ea_def reply_def sb_def ec_def)
  have lastm: "messages ?st' \<noteq> [] \<and> last (messages ?st') = reply"
    by (simp add: sb_def)
  have same: "can_persist sa ea = can_persist st e"
    by (rule can_persist_cong) (simp_all add: sa_def ea_def)
  have kept: "can_persist st e \<longrightarrow>
                (\<exists>c. currentConversationIdRef ?st' = Some c \<and> persisted c reply ed)"
  proof
    assume "can_persist st e"
    then have "persisted cid um eb" using pers1 same by simp
    then have "persisted cid um ec" using persisted_cong [of eb ec] by (simp add: ec_def)
    then have "can_persist sb ec" by (rule persisted_can_persist) (simp add: sb_def)
    then show "\<exists>c. currentConversationIdRef ?st' = Some c \<and> persisted c reply ed"
      using pers2 by simp
  qed
  have dropped: "\<not> can_persist st e \<longrightarrow> store ed = store e \<and> writes ed = writes e"
  proof
    assume no: "\<not> can_persist st e"
    then have eb: "eb = ea" and ref: "currentConversationIdRef sa = Some cid"
      using drop1 same by simp_all
    have "can_persist sb ec = can_persist st e"
      by (rule can_persist_cong) (simp_all add: sb_def ec_def eb ea_def ref [symmetric] sa_def)
    then have "ed = ec" using drop2 no by simp
    then show "store ed = store e \<and> writes ed = writes e"
      by (simp add: ec_def eb ea_def)
  qed
  have "\<exists>st' e' now1 reply'.
          reply' = \<lparr>msg_id = toString (now1 + 1), author = MODEL,
                   parts = Some [TextPart
                     ''Sorry, I failed to generate the image. Please try again.''],
                   content = None\<rparr>
          \<and> handleGenerateImage remote st e = Inr (st', e')
          \<and> messages st' \<noteq> [] \<and> last (messages st') = reply'
          \<and> (can_persist st e \<longrightarrow>
                (\<exists>cid. currentConversationIdRef st' = Some cid \<and> persisted cid reply' e'))
          \<and> (\<not> can_persist st e \<longrightarrow> store e' = store e \<and> writes e' = writes e)"
    using run lastm kept dropped unfolding reply_def by blast
  then show ?thesis using absent by blast
qed


theorem C8_generation_failure_amended_witness:
  "generateImage images_fail ''a cat'' (generation_params (cat_state None)) = Inr None
   \<and> (\<exists>now1. last (outcome_messages (handleGenerateImage images_fail (cat_state None) example_env))
                 = apology_message (toString (now1 + 1))
          \<and> outcome_persisted (apology_message (toString (now1 + 1)))
                (handleGenerateImage images_fail (cat_state None) example_env))
   \<and> generateImage images_empty ''a cat'' (generation_params (cat_state None)) = Inr None
   \<and> (\<exists>now1. last (outcome_messages (handleGenerateImage images_empty (cat_state None) example_env))
                 = apology_message (toString (now1 + 1))
          \<and> outcome_persisted (apology_message (toString (now1 + 1)))
                (handleGenerateImage images_empty (cat_state None) example_env))"
proof -
  have guard: "\<not> generate_rejected (cat_state None)"
    by (simp add: generate_rejected_def cat_state_def loadConversation_def initial_state_def
        trim_def is_whitespace_def)
  have prompt: "genPrompt (cat_state None) = ''a cat''"
    by (simp add: cat_state_def)
  have cp: "can_persist (cat_state None) example_env"
    by (simp add: can_persist_def cat_state_def loadConversation_def initial_state_def)
  have fails: "images_fail (genModel (cat_state None)) (genPrompt (cat_state None))
                 (image_config_of (generation_params (cat_state None)))
               = Inl (RemoteError ''quota'')"
    by (simp add: images_fail_def)
  have empty: "\<exists>resp. images_empty (genModel (cat_state None)) (genPrompt (cat_state None))
                 (image_config_of (generation_params (cat_state None))) = Inr resp
               \<and> (generatedImages resp = None \<or> generatedImages resp = Some [])"
    by (simp add: images_empty_def)
  have a: "generateImage images_fail ''a cat'' (generation_params (cat_state None)) = Inr None
   \<and> (\<exists>now1. last (outcome_messages (handleGenerateImage images_fail (cat_state None) example_env))
                 = apology_message (toString (now1 + 1))
          \<and> outcome_persisted (apology_message (toString (now1 + 1)))
                (handleGenerateImage images_fail (cat_state None) example_env))"
    using C8_generation_failure_amended [OF guard, of images_fail "RemoteError ''quota''" example_env]
      fails cp prompt
    by (auto simp add: outcome_messages_def outcome_persisted_def apology_message_def)
  have b: "generateImage images_empty ''a cat'' (generation_params (cat_state None)) = Inr None
   \<and> (\<exists>now1. last (outcome_messages (handleGenerateImage images_empty (cat_state None) example_env))
                 = apology_message (toString (now1 + 1))
          \<and> outcome_persisted (apology_message (toString (now1 + 1)))
                (handleGenerateImage images_empty (cat_state None) example_env))"
    using C8_generation_failure_amended [OF guard, of images_empty _ example_env]
      empty cp prompt
    by (auto simp add: outcome_messages_def outcome_persisted_def apology_message_def)
  show ?thesis using a b by blast
qed

section \<open>The number of images requested\<close>

text \<open>
  Claim C9 does not hold of the code: the count field's \<^verbatim>\<open>onChange\<close> stores
  \<^verbatim>\<open>parseInt(e.target.value, 10)\<close> unchecked, and \<^verbatim>\<open>handleGenerateImage\<close> sends it on. After
  the user has typed \<^verbatim>\<open>7\<close>, the request passes the guard and reaches the remote call with
  \<^verbatim>\<open>numberOfImages = 7\<close>; \<^verbatim>\<open>0\<close> gives 0 and an emptied field gives \<^verbatim>\<open>NaN\<close>.
\<close>

theorem C9_count_not_bounded:
  "\<not> generate_rejected (typed_count_state ''7'')
   \<and> numberOfImages (generation_params (typed_count_state ''7'')) = Num 7
   \<and> cfg_numberOfImages (image_config_of (generation_params (typed_count_state ''7''))) = Num 7
   \<and> generateImage images_probe (genPrompt (typed_count_state ''7''))
        (generation_params (typed_count_state ''7'')) = Inr (Some [''data:image/png;base64,7''])
   \<and> numberOfImages (generation_params (typed_count_state ''0'')) = Num 0
   \<and> numberOfImages (generation_params (typed_count_state [])) = NaN"
  by (simp add: typed_count_state_def onNumImagesChange_def onGenPromptChange_def
      initial_state_def generate_rejected_def trim_def is_whitespace_def generation_params_def
      image_config_of_def parseInt_def is_digit_def digit_value_def Let_def generateImage_def
      generate_try_block_def images_probe_def mime_or_png_def ts_examples)

section \<open>Runs of the handlers\<close>

lemma saveMessage_creates:
  assumes "currentConversationIdRef st = None \<or> currentConversationIdRef st = Some []"
    and "parts m = Some ps"
  shows "\<exists>cid e' c. saveMessage m st e = Inr (cid, st\<lparr>currentConversationIdRef := Some cid\<rparr>, e')
           \<and> cid \<noteq> []
           \<and> writes e' = writes e @ [c] \<and> getConversation cid (store e') = Some c
           \<and> conv_id c = cid \<and> conv_messages c = [m] \<and> conv_type c = ''chat''
           \<and> title c = conversation_title (titleText ps)"
proof -
  have save: "saveMessage m st e = createConversation m st e"
    using assms(1) by (auto simp add: saveMessage_def)
  show ?thesis
    unfolding save using assms(2)
    by (simp add: createConversation_def Date_now_def Let_def db_put_def toString_not_Nil
        onConversationCreated_def getConversation_def addOrUpdateConversation_def)
qed

lemma saveMessage_appends:
  assumes "currentConversationIdRef st = Some cid" and "cid \<noteq> []"
    and "getConversation cid (store e) = Some c" and "conv_type c = ''chat''"
  shows "saveMessage m st e
           = Inr (cid, st, db_put (c\<lparr>conv_messages := conv_messages c @ [m]\<rparr>) e)"
  using assms by (simp add: saveMessage_def)

lemma trim_Nil: "trim [] = []"
  by (simp add: trim_def)

lemma title_of_userParts:
  assumes "\<not> submit_rejected st"
  shows "conversation_title (titleText (userParts st)) = spec_title (userParts st)"
proof (cases "trim (input st) = []")
  case True
  then show ?thesis
    by (simp add: userParts_def titleText_def first_text_texts_of conversation_title_cases
        spec_title_def split: option.splits)
next
  case False
  then have "input st \<noteq> []" using trim_Nil by auto
  then show ?thesis using False
    by (simp add: userParts_def titleText_def first_text_texts_of conversation_title_cases
        spec_title_def split: option.splits)
qed

lemma handleSubmit_run:
  assumes "\<not> submit_rejected st"
    and "submit_start st e = Inr (history, modelMessage, st1, e1)"
  shows "\<exists>cid e'.
      saveMessage
        (modelMessage\<lparr>parts := Some [TextPart
           (concat (fst (getChatResponseStream remote history (model st))))]\<rparr>)
        ((snd (stream_loop (msg_id modelMessage)
                 (fst (getChatResponseStream remote history (model st))) st1))
           \<lparr>isLoading := False\<rparr>) e1
        = Inr (cid,
               (snd (stream_loop (msg_id modelMessage)
                 (fst (getChatResponseStream remote history (model st))) st1))
                 \<lparr>isLoading := False, currentConversationIdRef := Some cid\<rparr>, e')
      \<and> handleSubmit remote st e
        = Inr ((snd (stream_loop (msg_id modelMessage)
                 (fst (getChatResponseStream remote history (model st))) st1))
                 \<lparr>isLoading := False, currentConversationIdRef := Some cid\<rparr>, e')"
proof -
  define frags where "frags = fst (getChatResponseStream remote history (model st))"
  define final where "final = modelMessage\<lparr>parts := Some [TextPart (concat frags)]\<rparr>"
  define st2 where "st2 = snd (stream_loop (msg_id modelMessage) frags st1)"
  have gen: "getChatResponseStream remote history (model st) = (frags, None)"
    using getChatResponseStream_snd [of remote history "model st"]
    by (simp add: frags_def prod_eq_iff)
  have sl: "stream_loop (msg_id modelMessage) frags st1 = (concat frags, st2)"
    by (simp add: st2_def prod_eq_iff stream_loop_eq)
  have pf: "parts final \<noteq> None" by (simp add: final_def)
  obtain cid e' where save: "saveMessage final (st2\<lparr>isLoading := False\<rparr>) e1
       = Inr (cid, st2\<lparr>isLoading := False, currentConversationIdRef := Some cid\<rparr>, e')"
    using saveMessage_total [OF pf, of "st2\<lparr>isLoading := False\<rparr>" e1] by auto
  have run: "handleSubmit remote st e
       = Inr (st2\<lparr>isLoading := False, currentConversationIdRef := Some cid\<rparr>, e')"
    using assms gen sl save
    by (simp add: handleSubmit_def submit_finish_def Let_def final_def)
  show ?thesis using save run unfolding final_def st2_def frags_def by blast
qed

lemma submit_start_creates:
  assumes "currentConversationIdRef st = None \<or> currentConversationIdRef st = Some []"
  shows "\<exists>history modelMessage st1 e1 um c.
           submit_start st e = Inr (history, modelMessage, st1, e1)
           \<and> author um = USER \<and> parts um = Some (userParts st)
           \<and> writes e1 = writes e @ [c] \<and> conv_messages c = [um]
           \<and> title c = conversation_title (titleText (userParts st))
           \<and> conv_type c = ''chat'' \<and> conv_id c \<noteq> []
           \<and> getConversation (conv_id c) (store e1) = Some c
           \<and> currentConversationIdRef st1 = Some (conv_id c)"
proof -
  define um where "um = \<lparr>msg_id = toString (clock e (ticks e)), author = USER,
    parts = Some (userParts st), content = None\<rparr>"
  define sa where "sa = st\<lparr>messages := updatedMessages st um, input := [],
    uploadedImage := None, isLoading := True\<rparr>"
  define ea where "ea = e\<lparr>ticks := Suc (ticks e)\<rparr>"
  have ref: "currentConversationIdRef sa = None \<or> currentConversationIdRef sa = Some []"
    using assms by (simp add: sa_def)
  have pum: "parts um = Some (userParts st)" by (simp add: um_def)
  obtain cid eb c where save: "saveMessage um sa ea
       = Inr (cid, sa\<lparr>currentConversationIdRef := Some cid\<rparr>, eb)"
    and ne: "cid \<noteq> []" and w: "writes eb = writes ea @ [c]"
    and g: "getConversation cid (store eb) = Some c" and ci: "conv_id c = cid"
    and cm: "conv_messages c = [um]" and ct: "conv_type c = ''chat''"
    and ti: "title c = conversation_title (titleText (userParts st))"
    using saveMessage_creates [OF ref pum, of ea] by blast
  have start: "submit_start st e =
      Inr (updatedMessages st um,
           \<lparr>msg_id = toString (clock eb (ticks eb) + 1), author = MODEL,
            parts = Some [TextPart []], content = None\<rparr>,
           sa\<lparr>currentConversationIdRef := Some cid,
              messages := messages sa @ [\<lparr>msg_id = toString (clock eb (ticks eb) + 1),
                 author = MODEL, parts = Some [TextPart []], content = None\<rparr>]\<rparr>,
           eb\<lparr>ticks := Suc (ticks eb)\<rparr>)"
    using save by (simp add: submit_start_def Date_now_def Let_def um_def sa_def ea_def)
  have "author um = USER" by (simp add: um_def)
  moreover have "writes (eb\<lparr>ticks := Suc (ticks eb)\<rparr>) = writes e @ [c]"
    using w by (simp add: ea_def)
  moreover have "getConversation (conv_id c) (store (eb\<lparr>ticks := Suc (ticks eb)\<rparr>)) = Some c"
    using g ci by simp
  ultimately show ?thesis using start pum cm ti ct ne ci by auto
qed

section \<open>What is sent to the chat service\<close>

lemma getChatResponseStream_spec:
  assumes "\<forall>m \<in> set ms. parts m \<noteq> None"
  shows "getChatResponseStream r ms mdl = (reply_fragments (r mdl (spec_wire_history ms)), None)"
  by (simp add: getChatResponseStream_def stream_try_block_def buildContents_spec [OF assms]
      reply_fragments_def split: sum.splits prod.splits option.splits)

text \<open>
  Claim C7. The history \<^verbatim>\<open>handleSubmit\<close> hands to the chat streaming operation is the view's
  messages without those identified \<^verbatim>\<open>'initial'\<close>, followed by the new user message, and it
  contains no message with the identifier \<^verbatim>\<open>'initial'\<close>. \<^verbatim>\<open>buildContents\<close> translates a
  history whose messages all have \<^verbatim>\<open>parts\<close> (so the view's, after loading) as the
  specification says: only text and image parts are kept, an image part as inline data
  with its MIME type and base64 payload, a message with no text or image part is dropped,
  and the role is \<^verbatim>\<open>'user'\<close> for a \<^verbatim>\<open>USER\<close> message and \<^verbatim>\<open>'model'\<close> for any other. The
  streaming operation sends the remote call exactly that translation: what it yields is
  what the remote answers to it. And \<^verbatim>\<open>handleSubmit\<close> shows, as the reply, what the remote
  answers to the translation of this history under the selected model, for every remote.
\<close>

theorem C7_history_wire:
  assumes "submit_start st e = Inr (history, modelMessage, st1, e1)"
  shows "''initial'' \<notin> msg_id ` set history
    \<and> ((\<forall>m \<in> set (messages st). parts m \<noteq> None) \<longrightarrow>
          buildContents history = Inr (spec_wire_history history))
    \<and> (\<forall>ms. (\<forall>m \<in> set ms. parts m \<noteq> None) \<longrightarrow> buildContents ms = Inr (spec_wire_history ms))
    \<and> (\<exists>um. history = filter (\<lambda>m. msg_id m \<noteq> ''initial'') (messages st) @ [um]
           \<and> author um = USER \<and> parts um = Some (userParts st))
    \<and> (\<forall>r ms mdl. (\<forall>m \<in> set ms. parts m \<noteq> None) \<longrightarrow>
          getChatResponseStream r ms mdl = (reply_fragments (r mdl (spec_wire_history ms)), None))
    \<and> (\<not> submit_rejected st \<and> (\<forall>m \<in> set (messages st). parts m \<noteq> None) \<longrightarrow>
          (\<exists>st' e'. handleSubmit remote st e = Inr (st', e')
             \<and> last (messages st')
                 = modelMessage\<lparr>parts := Some [TextPart (concat (reply_fragments
                     (remote (model st) (spec_wire_history history))))]\<rparr>))"
proof -
  note facts = submit_start_facts [OF assms]
  obtain now0 where h: "history = updatedMessages st
           \<lparr>msg_id = toString now0, author = USER, parts = Some (userParts st), content = None\<rparr>"
    using facts(5) by blast
  have a: "''initial'' \<notin> msg_id ` set history"
    using toString_not_initial [of now0] by (auto simp add: h updatedMessages_def)
  have allp: "\<forall>m \<in> set history. parts m \<noteq> None"
    if "\<forall>m \<in> set (messages st). parts m \<noteq> None"
    using that by (auto simp add: h updatedMessages_def)
  have b: "(\<forall>m \<in> set (messages st). parts m \<noteq> None) \<longrightarrow>
          buildContents history = Inr (spec_wire_history history)"
    using allp buildContents_spec by blast
  have c: "\<exists>um. history = filter (\<lambda>m. msg_id m \<noteq> ''initial'') (messages st) @ [um]
           \<and> author um = USER \<and> parts um = Some (userParts st)"
    using h by (simp add: updatedMessages_def)
  have d: "\<not> submit_rejected st \<and> (\<forall>m \<in> set (messages st). parts m \<noteq> None) \<longrightarrow>
          (\<exists>st' e'. handleSubmit remote st e = Inr (st', e')
             \<and> last (messages st')
                 = modelMessage\<lparr>parts := Some [TextPart (concat (reply_fragments
                     (remote (model st) (spec_wire_history history))))]\<rparr>)"
  proof
    assume asm: "\<not> submit_rejected st \<and> (\<forall>m \<in> set (messages st). parts m \<noteq> None)"
    then have fr: "fst (getChatResponseStream remote history (model st))
                     = reply_fragments (remote (model st) (spec_wire_history history))"
      using getChatResponseStream_spec [OF allp, of remote "model st"] by simp
    obtain cid e' where run: "handleSubmit remote st e
        = Inr ((snd (stream_loop (msg_id modelMessage)
                 (fst (getChatResponseStream remote history (model st))) st1))
                 \<lparr>isLoading := False, currentConversationIdRef := Some cid\<rparr>, e')"
      using handleSubmit_run [OF _ assms, of remote] asm by blast
    have "last (messages ((snd (stream_loop (msg_id modelMessage)
                 (fst (getChatResponseStream remote history (model st))) st1))
                 \<lparr>isLoading := False, currentConversationIdRef := Some cid\<rparr>))
            = modelMessage\<lparr>parts := Some [TextPart (concat
                (fst (getChatResponseStream remote history (model st))))]\<rparr>"
      using stream_loop_placeholder [OF facts(1) facts(2)] by simp
    then show "\<exists>st' e'. handleSubmit remote st e = Inr (st', e')
             \<and> last (messages st')
                 = modelMessage\<lparr>parts := Some [TextPart (concat (reply_fragments
                     (remote (model st) (spec_wire_history history))))]\<rparr>"
      using run fr by auto
  qed
  show ?thesis using a b c d buildContents_spec getChatResponseStream_spec by blast
qed

theorem C7_history_wire_witness:
  "(\<exists>st1 e1.
      submit_start busy_state example_env = Inr (busy_history, model_reply ''1002'' [], st1, e1))
   \<and> greeting \<in> set (messages busy_state)
   \<and> ''initial'' \<notin> msg_id ` set busy_history
   \<and> buildContents busy_history =
       Inr [\<lparr>role = ''user'',
             content_parts = [InlineData ''image/png'' ''QUJD'',
               TextData ''Please describe this picture of my cat in great detail'']\<rparr>,
            \<lparr>role = ''model'', content_parts = [TextData ''A cat.'']\<rparr>,
            \<lparr>role = ''user'', content_parts = [TextData ''and now?'']\<rparr>]
   \<and> last (outcome_messages (handleSubmit remote_roles busy_state example_env))
       = model_reply ''1002'' ''usermodeluser''"
proof -
  have ts: "toString 1000 = ''1000''" "toString 1002 = ''1002''"
    by (simp_all add: toString_def digits_of.simps digit_char_def)
  have "\<exists>st1 e1.
      submit_start busy_state example_env = Inr (busy_history, model_reply ''1002'' [], st1, e1)"
    by (simp add: submit_start_def busy_state_def busy_history_def initial_state_def
        example_env_def Date_now_def Let_def updatedMessages_def userParts_def greeting_def
        trim_def is_whitespace_def saveMessage_def getConversation_def
        long_text_message_def generated_message_def reply_1004_def model_reply_def ts)
  then obtain st1 e1 where
    start: "submit_start busy_state example_env
              = Inr (busy_history, model_reply ''1002'' [], st1, e1)"
    by blast
  have all: "\<forall>m \<in> set (messages busy_state). parts m \<noteq> None"
    by (simp add: busy_state_def greeting_def long_text_message_def generated_message_def
        reply_1004_def)
  have guard: "\<not> submit_rejected busy_state"
    by (simp add: submit_rejected_def busy_state_def initial_state_def trim_def
        is_whitespace_def)
  have g: "greeting \<in> set (messages busy_state)" by (simp add: busy_state_def)
  have w: "spec_wire_history busy_history =
       [\<lparr>role = ''user'',
             content_parts = [InlineData ''image/png'' ''QUJD'',
               TextData ''Please describe this picture of my cat in great detail'']\<rparr>,
            \<lparr>role = ''model'', content_parts = [TextData ''A cat.'']\<rparr>,
            \<lparr>role = ''user'', content_parts = [TextData ''and now?'']\<rparr>]"
    by (simp add: spec_wire_history_def spec_wire_message_def message_parts_def busy_history_def
        long_text_message_def generated_message_def reply_1004_def)
  have rf: "reply_fragments (remote_roles (model busy_state) (spec_wire_history busy_history))
              = [''usermodeluser'']"
    by (simp add: w reply_fragments_def remote_roles_def)
  note inst = C7_history_wire [OF start, of remote_roles]
  have first: "''initial'' \<notin> msg_id ` set busy_history
     \<and> buildContents busy_history = Inr (spec_wire_history busy_history)"
    using inst all by blast
  have "\<exists>st' e'. handleSubmit remote_roles busy_state example_env = Inr (st', e')
          \<and> last (messages st') = (model_reply ''1002'' [])\<lparr>parts :=
               Some [TextPart (concat [''usermodeluser''])]\<rparr>"
    using inst all guard rf by auto
  then have lastm: "last (outcome_messages (handleSubmit remote_roles busy_state example_env))
       = model_reply ''1002'' ''usermodeluser''"
    by (auto simp add: outcome_messages_def model_reply_def)
  show ?thesis using start g first w lastm by auto
qed

section \<open>The title given by the first save\<close>

lemma handleSubmit_first_title:
  assumes "currentConversationIdRef st = None \<or> currentConversationIdRef st = Some []"
    and "\<not> submit_rejected st"
  shows "\<exists>st' e' um c c'. handleSubmit remote st e = Inr (st', e')
           \<and> writes e' = writes e @ [c, c']
           \<and> conv_messages c = [um] \<and> author um = USER \<and> parts um = Some (userParts st)
           \<and> title c = spec_title (userParts st)
           \<and> conv_id c' = conv_id c \<and> title c' = title c"
proof -
  obtain history modelMessage st1 e1 um c where
    start: "submit_start st e = Inr (history, modelMessage, st1, e1)"
    and um: "author um = USER" "parts um = Some (userParts st)"
    and w: "writes e1 = writes e @ [c]" and cm: "conv_messages c = [um]"
    and ti: "title c = conversation_title (titleText (userParts st))"
    and ct: "conv_type c = ''chat''" and ne: "conv_id c \<noteq> []"
    and g: "getConversation (conv_id c) (store e1) = Some c"
    and ref: "currentConversationIdRef st1 = Some (conv_id c)"
    using submit_start_creates [OF assms(1), of e] by blast
  define frags where "frags = fst (getChatResponseStream remote history (model st))"
  define final where "final = modelMessage\<lparr>parts := Some [TextPart (concat frags)]\<rparr>"
  define st2 where "st2 = (snd (stream_loop (msg_id modelMessage) frags st1))\<lparr>isLoading := False\<rparr>"
  obtain cid e' where save: "saveMessage final st2 e1
        = Inr (cid, st2\<lparr>currentConversationIdRef := Some cid\<rparr>, e')"
    and run: "handleSubmit remote st e = Inr (st2\<lparr>currentConversationIdRef := Some cid\<rparr>, e')"
    using handleSubmit_run [OF assms(2) start, of remote]
    unfolding final_def st2_def frags_def by auto
  have ref2: "currentConversationIdRef st2 = Some (conv_id c)"
    using ref by (simp add: st2_def stream_loop_frame)
  let ?c' = "c\<lparr>conv_messages := conv_messages c @ [final]\<rparr>"
  have "saveMessage final st2 e1 = Inr (conv_id c, st2, db_put ?c' e1)"
    using ref2 ne g ct by (rule saveMessage_appends)
  then have "e' = db_put ?c' e1" using save by simp
  then have "writes e' = writes e @ [c, ?c']" using w by (simp add: db_put_def)
  moreover have "title c = spec_title (userParts st)"
    using ti title_of_userParts [OF assms(2)] by simp
  moreover have "conv_id ?c' = conv_id c \<and> title ?c' = title c" by simp
  ultimately show ?thesis using run um cm by blast
qed

lemma handleGenerateImage_first_title:
  assumes "currentConversationIdRef st = None \<or> currentConversationIdRef st = Some []"
    and "\<not> generate_rejected st"
  shows "\<exists>st' e' um ps c c'. handleGenerateImage remote st e = Inr (st', e')
           \<and> writes e' = writes e @ [c, c']
           \<and> conv_messages c = [um] \<and> author um = USER \<and> parts um = Some ps
           \<and> ps = [TextPart (''Generate image: '' @ [CHR 0x22] @ genPrompt st @ [CHR 0x22])]
           \<and> title c = spec_title ps
           \<and> conv_id c' = conv_id c \<and> title c' = title c"
proof -
  define ps where "ps = [TextPart (''Generate image: '' @ [CHR 0x22] @ genPrompt st @ [CHR 0x22])]"
  define um where "um = \<lparr>msg_id = toString (clock e (ticks e)), author = USER,
    parts = Some ps, content = None\<rparr>"
  define sa where "sa = st\<lparr>isLoading := True, showGenerationPanel := False,
    messages := filter (\<lambda>m. msg_id m \<noteq> ''initial'') (messages st) @ [um]\<rparr>"
  define ea where "ea = e\<lparr>ticks := Suc (ticks e)\<rparr>"
  have ref: "currentConversationIdRef sa = None \<or> currentConversationIdRef sa = Some []"
    using assms(1) by (simp add: sa_def)
  have pum: "parts um = Some ps" by (simp add: um_def)
  obtain cid eb c where save1: "saveMessage um sa ea
       = Inr (cid, sa\<lparr>currentConversationIdRef := Some cid\<rparr>, eb)"
    and ne: "cid \<noteq> []" and w: "writes eb = writes ea @ [c]"
    and g: "getConversation cid (store eb) = Some c" and ci: "conv_id c = cid"
    and cm: "conv_messages c = [um]" and ct: "conv_type c = ''chat''"
    and ti: "title c = conversation_title (titleText ps)"
    using saveMessage_creates [OF ref pum, of ea] by blast
  obtain result where gen: "generateImage remote (genPrompt st) (generation_params st) = Inr result"
    using generateImage_never_throws [of remote "genPrompt st" "generation_params st"] by blast
  define reply where "reply = generation_reply st result (clock eb (ticks eb))"
  define sb where "sb = sa\<lparr>currentConversationIdRef := Some cid,
    messages := messages sa @ [reply]\<rparr>"
  define ec where "ec = eb\<lparr>ticks := Suc (ticks eb)\<rparr>"
  let ?c' = "c\<lparr>conv_messages := conv_messages c @ [reply]\<rparr>"
  have save2: "saveMessage reply sb ec = Inr (cid, sb, db_put ?c' ec)"
  proof (rule saveMessage_appends)
    show "currentConversationIdRef sb = Some cid" by (simp add: sb_def)
    show "cid \<noteq> []" by (rule ne)
    show "getConversation cid (store ec) = Some c" using g by (simp add: ec_def)
    show "conv_type c = ''chat''" by (rule ct)
  qed
  have run: "handleGenerateImage remote st e
       = Inr (sb\<lparr>genPrompt := [], isLoading := False\<rparr>, db_put ?c' ec)"
    using assms(2) save1 gen save2
    by (simp add: handleGenerateImage_def Date_now_def Let_def
        ps_def um_def sa_def ea_def reply_def sb_def ec_def)
  have "writes (db_put ?c' ec) = writes e @ [c, ?c']"
    using w by (simp add: db_put_def ec_def ea_def)
  moreover have "title c = spec_title ps"
    using ti by (simp add: ps_def titleText_def first_text_def conversation_title_cases
        spec_title_def)
  moreover have "conv_id ?c' = conv_id c \<and> title ?c' = title c" by simp
  moreover have "author um = USER" by (simp add: um_def)
  ultimately show ?thesis using run pum cm ps_def by blast
qed

text \<open>
  Claim C6. The first message saved in a new conversation is the user message of
  \<^verbatim>\<open>handleSubmit\<close> or the request message of \<^verbatim>\<open>handleGenerateImage\<close>, run with no
  identifier set. In both, the first conversation written holds just that message and its
  title is the content of the message's first text part, cut to 40 characters and
  followed by \<^verbatim>\<open>'...'\<close> when it is longer than 40, the whole content otherwise, and
  \<^verbatim>\<open>'New Chat'\<close> when the message has no text part (an image alone was submitted). The
  second write of the handler is the same conversation, same title, with the reply
  appended.
\<close>

theorem C6_first_title:
  assumes "currentConversationIdRef st = None \<or> currentConversationIdRef st = Some []"
  shows "(\<not> submit_rejected st \<longrightarrow>
           (\<exists>st' e' um c c'. handleSubmit remote st e = Inr (st', e')
              \<and> writes e' = writes e @ [c, c']
              \<and> conv_messages c = [um] \<and> author um = USER \<and> parts um = Some (userParts st)
              \<and> title c = spec_title (userParts st)
              \<and> conv_id c' = conv_id c \<and> title c' = title c))
    \<and> (\<not> generate_rejected st \<longrightarrow>
           (\<exists>st' e' um ps c c'. handleGenerateImage iremote st e = Inr (st', e')
              \<and> writes e' = writes e @ [c, c']
              \<and> conv_messages c = [um] \<and> author um = USER \<and> parts um = Some ps
              \<and> ps = [TextPart (''Generate image: '' @ [CHR 0x22] @ genPrompt st @ [CHR 0x22])]
              \<and> title c = spec_title ps
              \<and> conv_id c' = conv_id c \<and> title c' = title c))"
  using handleSubmit_first_title [OF assms, of remote e]
    handleGenerateImage_first_title [OF assms, of iremote e]
  by blast

theorem C6_first_title_witness:
  "map title (outcome_writes (handleSubmit remote_hello long_input_state example_env))
     = [''Please describe this picture of my cat i...'',
        ''Please describe this picture of my cat i...'']
   \<and> map title (outcome_writes (handleSubmit remote_hello hi_state example_env))
     = [''hi'', ''hi'']
   \<and> map title (outcome_writes (handleSubmit remote_hello image_only_state example_env))
     = [''New Chat'', ''New Chat'']
   \<and> map title (outcome_writes (handleGenerateImage images_fail (cat_state None) example_env))
     = [''Generate image: '' @ [CHR 0x22] @ ''a cat'' @ [CHR 0x22],
        ''Generate image: '' @ [CHR 0x22] @ ''a cat'' @ [CHR 0x22]]"
proof -
  have w: "writes example_env = []" by (simp add: example_env_def)
  have r1: "currentConversationIdRef long_input_state = None
            \<or> currentConversationIdRef long_input_state = Some []"
    and g1: "\<not> submit_rejected long_input_state"
    and t1: "spec_title (userParts long_input_state)
              = ''Please describe this picture of my cat i...''"
    by (simp_all add: long_input_state_def loadConversation_def initial_state_def
        submit_rejected_def spec_title_def userParts_def trim_def is_whitespace_def)
  have r2: "currentConversationIdRef hi_state = None
            \<or> currentConversationIdRef hi_state = Some []"
    and g2: "\<not> submit_rejected hi_state"
    and t2: "spec_title (userParts hi_state) = ''hi''"
    by (simp_all add: hi_state_def loadConversation_def initial_state_def
        submit_rejected_def spec_title_def userParts_def trim_def is_whitespace_def)
  have r3: "currentConversationIdRef image_only_state = None
            \<or> currentConversationIdRef image_only_state = Some []"
    and g3: "\<not> submit_rejected image_only_state"
    and t3: "spec_title (userParts image_only_state) = ''New Chat''"
    by (simp_all add: image_only_state_def loadConversation_def initial_state_def
        submit_rejected_def spec_title_def userParts_def trim_def is_whitespace_def)
  have r4: "currentConversationIdRef (cat_state None) = None
            \<or> currentConversationIdRef (cat_state None) = Some []"
    and g4: "\<not> generate_rejected (cat_state None)"
    and p4: "genPrompt (cat_state None) = ''a cat''"
    by (simp_all add: cat_state_def loadConversation_def initial_state_def
        generate_rejected_def trim_def is_whitespace_def)
  have t4: "spec_title [TextPart (''Generate image: '' @ [CHR 0x22] @ ''a cat'' @ [CHR 0x22])]
              = ''Generate image: '' @ [CHR 0x22] @ ''a cat'' @ [CHR 0x22]"
    by (simp add: spec_title_def)
  have a: "map title (outcome_writes (handleSubmit remote_hello long_input_state example_env))
     = [''Please describe this picture of my cat i...'',
        ''Please describe this picture of my cat i...'']"
    using C6_first_title [OF r1, of remote_hello example_env, THEN conjunct1] g1 t1 w
    by (auto simp add: outcome_writes_def)
  have b: "map title (outcome_writes (handleSubmit remote_hello hi_state example_env))
     = [''hi'', ''hi'']"
    using C6_first_title [OF r2, of remote_hello example_env, THEN conjunct1] g2 t2 w
    by (auto simp add: outcome_writes_def)
  have c: "map title (outcome_writes (handleSubmit remote_hello image_only_state example_env))
     = [''New Chat'', ''New Chat'']"
    using C6_first_title [OF r3, of remote_hello example_env, THEN conjunct1] g3 t3 w
    by (auto simp add: outcome_writes_def)
  have d: "map title (outcome_writes (handleGenerateImage images_fail (cat_state None) example_env))
     = [''Generate image: '' @ [CHR 0x22] @ ''a cat'' @ [CHR 0x22],
        ''Generate image: '' @ [CHR 0x22] @ ''a cat'' @ [CHR 0x22]]"
    using C6_first_title [OF r4, of _ example_env images_fail, THEN conjunct2] g4 p4 t4 w
    by (auto simp add: outcome_writes_def)
  show ?thesis using a b c d by blast
qed

end
